theory Spec2Isabelle
  imports Complex_Main
begin

section \<open>The categorical chart engine: layout, domains and tooltip state\<close>

text \<open>
  A shallow embedding of the domain resolution, offset calculation, tooltip resolution and
  chart synchronisation of \<^verbatim>\<open>src/chart/generateCategoricalChart.tsx\<close>, and of the width and
  height validation and the scale helper of the utility modules.

  JavaScript numbers are modelled by \<^typ>\<open>real\<close>: the finite numbers. Where the code can meet a
  value that is no finite number (an absent property, \<^verbatim>\<open>NaN\<close>), the model says so with an
  \<^typ>\<open>'a option\<close> or a constructor of its own. Array indices are \<^typ>\<open>int\<close>. Functions of
  the repository that the engine imports from modules outside the sources at hand are
  parameters of the model, collected in records of helpers.
\<close>

subsection \<open>Values\<close>

text \<open>
  What a property typed \<^verbatim>\<open>number | undefined\<close> can hold: a finite number, \<^verbatim>\<open>NaN\<close>, or nothing.
\<close>

datatype jsval = JNum real | JNaN | JUndefined

text \<open>The numeric reading of such a value in arithmetic; \<open>None\<close> is \<^verbatim>\<open>NaN\<close>.\<close>

fun to_number :: "jsval \<Rightarrow> real option" where
  "to_number (JNum r) = Some r"
| "to_number JNaN = None"
| "to_number JUndefined = None"

text \<open>
  Modelled from the spec: \<^verbatim>\<open>isNumber\<close> of \<^verbatim>\<open>util/DataUtils\<close>, which is not among the sources;
  the spec calls what it rejects "non-numeric": it holds of the numbers other than \<^verbatim>\<open>NaN\<close>.
\<close>

fun isNumber :: "jsval \<Rightarrow> bool" where
  "isNumber (JNum r) = True"
| "isNumber JNaN = False"
| "isNumber JUndefined = False"

text \<open>\<^verbatim>\<open>v <= 0\<close>: a comparison with \<^verbatim>\<open>NaN\<close> or \<^verbatim>\<open>undefined\<close> is false.\<close>

fun js_le_zero :: "jsval \<Rightarrow> bool" where
  "js_le_zero (JNum r) = (r \<le> 0)"
| "js_le_zero JNaN = False"
| "js_le_zero JUndefined = False"

text \<open>\<^verbatim>\<open>v || d\<close> on an optional number: the default replaces an absent value and zero.\<close>

definition or_default :: "real option \<Rightarrow> real \<Rightarrow> real" where
  "or_default v d = (case v of None \<Rightarrow> d | Some r \<Rightarrow> if r = 0 then d else r)"

text \<open>
  Array access \<^verbatim>\<open>xs[i]\<close>: \<^verbatim>\<open>undefined\<close> outside the array, also at a negative index.
\<close>

definition js_nth :: "'a list \<Rightarrow> int \<Rightarrow> 'a option" where
  "js_nth xs i = (if 0 \<le> i \<and> i < int (length xs) then Some (xs ! nat i) else None)"

text \<open>
  \<^verbatim>\<open>xs.slice(s, e)\<close>: a negative bound counts from the end, and both are cut to the array.
\<close>

definition js_slice :: "'a list \<Rightarrow> int \<Rightarrow> int \<Rightarrow> 'a list" where
  "js_slice xs s e =
     (let n = int (length xs);
          k = (if s < 0 then max (n + s) 0 else min s n);
          f = (if e < 0 then max (n + e) 0 else min e n)
      in take (nat (f - k)) (drop (nat k) xs))"

text \<open>
  A property that the code reads both as \<^verbatim>\<open>undefined\<close> and as \<^verbatim>\<open>null\<close> and tells the two
  apart: the data of the chart, which \<^verbatim>\<open>getTooltipContent\<close> compares with \<^verbatim>\<open>undefined\<close>.
\<close>

datatype 'a nullable = Undefined | Null | Defined 'a

subsection \<open>ScaleHelper\<close>

text \<open>
  A scale, as far as \<^verbatim>\<open>ScaleHelper.isInRange\<close> reads it: the array its \<^verbatim>\<open>range()\<close> returns.
\<close>

record scale =
  scale_range :: "real list"

text \<open>
  \<^verbatim>\<open>isInRange(value)\<close> reads the first and the last entry of the range. On an empty range both
  are \<^verbatim>\<open>undefined\<close>, every comparison is false and so is the result.
\<close>

definition isInRange :: "scale \<Rightarrow> real \<Rightarrow> bool" where
  "isInRange sc v =
     (case scale_range sc of
        [] \<Rightarrow> False
      | first # rest \<Rightarrow>
          (let lst = last (first # rest)
           in if first \<le> lst then v \<ge> first \<and> v \<le> lst else v \<ge> lst \<and> v \<le> first))"

subsection \<open>Validation of width and height\<close>

text \<open>The chart properties that the validation and the offset read.\<close>

record margin =
  margin_top :: "real option"
  margin_right :: "real option"
  margin_bottom :: "real option"
  margin_left :: "real option"

record brush_props =
  brush_height :: "real option"
  brush_startIndex :: "int option"
  brush_endIndex :: "int option"

record size_props =
  prop_width :: jsval
  prop_height :: jsval
  prop_margin :: "margin option"
  prop_brush :: "brush_props option"
  prop_legend :: bool

record 'p element =
  el_props :: "'p option"

text \<open>\<^verbatim>\<open>validateWidthHeight(el)\<close>; the element and its properties may be missing.\<close>

definition validateWidthHeight :: "('a size_props_scheme) element option \<Rightarrow> bool" where
  "validateWidthHeight el =
     (case el of
        None \<Rightarrow> False
      | Some e \<Rightarrow>
          (case el_props e of
             None \<Rightarrow> False
           | Some p \<Rightarrow>
               (if \<not> isNumber (prop_width p) \<or> js_le_zero (prop_width p)
                   \<or> \<not> isNumber (prop_height p) \<or> js_le_zero (prop_height p)
                then False else True)))"

text \<open>
  What a call can end with other than a value: \<^verbatim>\<open>tiny-invariant\<close> failing, or a property read
  on \<^verbatim>\<open>undefined\<close> or \<^verbatim>\<open>null\<close>.
\<close>

datatype error = InvariantViolation | TypeError

text \<open>
  \<^verbatim>\<open>updateStateOfAxisMapsOffsetAndStackGroups\<close>. Its first statement is the guard on width and
  height; all that follows it (stack groups, axis maps, offset, ticks, formatted items) is the
  parameter \<open>pipeline\<close>, which may fail on an axis id without an axis. \<open>None\<close> is the
  \<^verbatim>\<open>null\<close> the function returns.
\<close>

definition updateStateOfAxisMapsOffsetAndStackGroups ::
  "(('a size_props_scheme) \<Rightarrow> 'i \<Rightarrow> 'st option \<Rightarrow> error + 'u)
     \<Rightarrow> ('a size_props_scheme) \<Rightarrow> 'i \<Rightarrow> 'st option \<Rightarrow> error + 'u option" where
  "updateStateOfAxisMapsOffsetAndStackGroups pipeline props indices prevState =
     (if \<not> validateWidthHeight (Some \<lparr>el_props = Some props\<rparr>) then Inr None
      else (case pipeline props indices prevState of
              Inl e \<Rightarrow> Inl e
            | Inr u \<Rightarrow> Inr (Some u)))"

subsection \<open>The offset of the plot area\<close>

datatype x_orientation = Bottom | Top
datatype y_orientation = Left | Right

record x_axis =
  x_orientation :: x_orientation
  x_mirror :: bool
  x_hide :: bool
  x_height :: real

record y_axis =
  y_orientation :: y_orientation
  y_mirror :: bool
  y_hide :: bool
  y_width :: real

text \<open>The four sides, as \<^verbatim>\<open>offsetV\<close> and \<^verbatim>\<open>offsetH\<close> collect them.\<close>

record edges =
  e_top :: real
  e_right :: real
  e_bottom :: real
  e_left :: real

record chart_offset =
  o_top :: real
  o_right :: real
  o_bottom :: real
  o_left :: real
  o_width :: "real option"
  o_height :: "real option"
  o_brushBottom :: real

text \<open>One step of the reduction over the keys of \<^verbatim>\<open>yAxisMap\<close>, and of \<^verbatim>\<open>xAxisMap\<close>.\<close>

definition offsetH_step :: "edges \<Rightarrow> y_axis \<Rightarrow> edges" where
  "offsetH_step result entry =
     (if \<not> y_mirror entry \<and> \<not> y_hide entry then
        (case y_orientation entry of
           Left \<Rightarrow> result\<lparr>e_left := e_left result + y_width entry\<rparr>
         | Right \<Rightarrow> result\<lparr>e_right := e_right result + y_width entry\<rparr>)
      else result)"

definition offsetV_step :: "edges \<Rightarrow> x_axis \<Rightarrow> edges" where
  "offsetV_step result entry =
     (if \<not> x_mirror entry \<and> \<not> x_hide entry then
        (case x_orientation entry of
           Bottom \<Rightarrow> result\<lparr>e_bottom := e_bottom result + x_height entry\<rparr>
         | Top \<Rightarrow> result\<lparr>e_top := e_top result + x_height entry\<rparr>)
      else result)"

text \<open>
  \<^verbatim>\<open>calculateOffset\<close>. The axis maps are the lists of their entries in key order.
  \<open>appendOffsetOfLegend\<close> (of \<^verbatim>\<open>util/ChartUtils\<close>) and the default height of the brush are
  parameters. The width and height are \<^verbatim>\<open>Math.max\<close> of a difference and zero, which is
  \<^verbatim>\<open>NaN\<close> (\<open>None\<close>) when the chart's width or height is no number.
\<close>

definition calculateOffset ::
  "(edges \<Rightarrow> 'i list \<Rightarrow> ('a size_props_scheme) \<Rightarrow> 'b \<Rightarrow> edges) \<Rightarrow> real
     \<Rightarrow> ('a size_props_scheme) \<Rightarrow> 'i list \<Rightarrow> x_axis list \<Rightarrow> y_axis list \<Rightarrow> 'b option
     \<Rightarrow> chart_offset" where
  "calculateOffset appendOffsetOfLegend brushDefaultHeight props graphicalItems xAxisMap yAxisMap
       prevLegendBBox =
     (let m = (case prop_margin props of
                 None \<Rightarrow> \<lparr>margin_top = None, margin_right = None, margin_bottom = None,
                           margin_left = None\<rparr>
               | Some mg \<Rightarrow> mg);
          offsetH = foldl offsetH_step
                      \<lparr>e_top = 0, e_right = or_default (margin_right m) 0, e_bottom = 0,
                       e_left = or_default (margin_left m) 0\<rparr> yAxisMap;
          offsetV = foldl offsetV_step
                      \<lparr>e_top = or_default (margin_top m) 0, e_right = 0,
                       e_bottom = or_default (margin_bottom m) 0, e_left = 0\<rparr> xAxisMap;
          offset0 = \<lparr>e_top = e_top offsetV, e_right = e_right offsetH,
                     e_bottom = e_bottom offsetV, e_left = e_left offsetH\<rparr>;
          brushBottom = e_bottom offset0;
          offset1 = (case prop_brush props of
                       None \<Rightarrow> offset0
                     | Some b \<Rightarrow>
                         offset0\<lparr>e_bottom := e_bottom offset0
                                     + or_default (brush_height b) brushDefaultHeight\<rparr>);
          offset2 = (case prevLegendBBox of
                       None \<Rightarrow> offset1
                     | Some box \<Rightarrow>
                         if prop_legend props
                         then appendOffsetOfLegend offset1 graphicalItems props box
                         else offset1);
          offsetWidth = map_option (\<lambda>w. w - e_left offset2 - e_right offset2)
                          (to_number (prop_width props));
          offsetHeight = map_option (\<lambda>h. h - e_top offset2 - e_bottom offset2)
                           (to_number (prop_height props))
      in \<lparr>o_top = e_top offset2, o_right = e_right offset2, o_bottom = e_bottom offset2,
          o_left = e_left offset2,
          o_width = map_option (\<lambda>w. max w 0) offsetWidth,
          o_height = map_option (\<lambda>h. max h 0) offsetHeight,
          o_brushBottom = brushBottom\<rparr>)"

text \<open>The differences that \<^verbatim>\<open>calculateOffset\<close> clamps, read off the record it returns.\<close>

definition rawOffsetWidth :: "('a size_props_scheme) \<Rightarrow> chart_offset \<Rightarrow> real option" where
  "rawOffsetWidth props off =
     map_option (\<lambda>w. w - o_left off - o_right off) (to_number (prop_width props))"

definition rawOffsetHeight :: "('a size_props_scheme) \<Rightarrow> chart_offset \<Rightarrow> real option" where
  "rawOffsetHeight props off =
     map_option (\<lambda>h. h - o_top off - o_bottom off) (to_number (prop_height props))"

subsection \<open>Data, series and the displayed slice\<close>

text \<open>
  A value of the data: a domain entry, a category or a label. \<open>Nil\<close> stands for
  \<^verbatim>\<open>null\<close> and \<^verbatim>\<open>undefined\<close>, which \<^verbatim>\<open>isNil\<close> of lodash does not tell apart.
\<close>

datatype val = Num real | Str string | Nil

definition isNil :: "val \<Rightarrow> bool" where
  "isNil v = (v = Nil)"

text \<open>\<^verbatim>\<open>range(0, len)\<close> of lodash.\<close>

definition range0 :: "nat \<Rightarrow> val list" where
  "range0 len = map (\<lambda>i. Num (real i)) [0..<len]"

datatype layout = Horizontal | Vertical | Centric | Radial

datatype axis_type = XAxis | YAxis | ZAxis | AngleAxis | RadiusAxis

datatype stack_offset = Expand | NoOffset | Wiggle | Silhouette | Sign | Positive

text \<open>
  The id of an axis (\<^verbatim>\<open>xAxisId\<close>, \<^verbatim>\<open>yAxisId\<close>, ...): a number or a string. \<open>NumId n\<close> is the
  integer \<open>n\<close>, which a JavaScript number holds exactly when it is a safe integer. The ids of
  an item and of an axis are compared with \<^verbatim>\<open>===\<close>, which is the equality of this type: the
  number \<open>0\<close> and the string \<^verbatim>\<open>'0'\<close> differ.
\<close>

datatype axis_id = NumId int | StrId string

definition safeInteger :: "axis_id \<Rightarrow> bool" where
  "safeInteger i = (case i of NumId n \<Rightarrow> \<bar>n\<bar> \<le> 2 ^ 53 - 1 | StrId s \<Rightarrow> True)"

text \<open>
  The axis maps and the stack groups are objects, and \<^verbatim>\<open>result[axisId]\<close> reads the property
  whose key is the id converted to a string: a safe integer in decimal digits, a string as
  it is. So the ids \<open>0\<close> and \<^verbatim>\<open>'0'\<close> name the same property.
\<close>

definition digitChar :: "nat \<Rightarrow> char" where
  "digitChar d = ''0123456789'' ! d"

fun decimal :: "nat \<Rightarrow> string" where
  "decimal n = (if n < 10 then [digitChar n] else decimal (n div 10) @ [digitChar (n mod 10)])"

declare decimal.simps [simp del]

definition propertyKey :: "axis_id \<Rightarrow> string" where
  "propertyKey i =
     (case i of
        NumId n \<Rightarrow> if n < 0 then CHR ''-'' # decimal (nat (- n)) else decimal (nat n)
      | StrId s \<Rightarrow> s)"

text \<open>The key of an id that may be missing: \<^verbatim>\<open>undefined\<close> names the property \<^verbatim>\<open>'undefined'\<close>.\<close>

definition propertyKeyOf :: "axis_id option \<Rightarrow> string" where
  "propertyKeyOf i = (case i of None \<Rightarrow> ''undefined'' | Some a \<Rightarrow> propertyKey a)"

text \<open>
  The maps are built from \<^verbatim>\<open>{}\<close> by object spread, so they inherit the properties of
  \<^verbatim>\<open>Object.prototype\<close>, all of them functions or objects. \<^verbatim>\<open>result[axisId]\<close> is truthy when
  the map has an entry of its own under the key (an entry is an object) and for an inherited
  key.
\<close>

definition inheritedKeys :: "string list" where
  "inheritedKeys =
     [''constructor'', ''toString'', ''valueOf'', ''toLocaleString'', ''hasOwnProperty'',
      ''isPrototypeOf'', ''propertyIsEnumerable'', ''__proto__'', ''__defineGetter__'',
      ''__defineSetter__'', ''__lookupGetter__'', ''__lookupSetter__'']"

definition truthyProperty :: "(string \<times> 'e) list \<Rightarrow> string \<Rightarrow> bool" where
  "truthyProperty result key = (map_of result key \<noteq> None \<or> key \<in> set inheritedKeys)"

text \<open>
  A graphical item (a series), as the engine reads it: the data of its own, if any (an entry of
  an array of records may be \<^verbatim>\<open>null\<close>), the axis id it names for each kind of axis (from its
  properties or its defaults), and whether it is hidden.
\<close>

record 'd item =
  item_key :: string
  item_data :: "'d option list option"
  item_axisId :: "axis_type \<Rightarrow> axis_id option"
  item_hide :: bool

text \<open>
  \<^verbatim>\<open>getDisplayedData\<close>: the data of the items, concatenated, when any item has data of its own;
  else the chart's data cut to the window, when both indices are numbers.
\<close>

definition itemsData_step :: "'d option list \<Rightarrow> ('d, 'z) item_scheme \<Rightarrow> 'd option list" where
  "itemsData_step result child =
     (case item_data child of
        None \<Rightarrow> result
      | Some itemData \<Rightarrow> if length itemData \<noteq> 0 then result @ itemData else result)"

definition getDisplayedData ::
  "'d option list nullable \<Rightarrow> ('d, 'z) item_scheme list option \<Rightarrow> int option \<Rightarrow> int option
     \<Rightarrow> 'd option list" where
  "getDisplayedData data graphicalItems dataStartIndex dataEndIndex =
     (let itemsData = foldl itemsData_step []
                        (case graphicalItems of None \<Rightarrow> [] | Some its \<Rightarrow> its)
      in if length itemsData > 0 then itemsData
         else (case (data, dataStartIndex, dataEndIndex) of
                 (Defined d, Some s, Some e) \<Rightarrow>
                   if length d \<noteq> 0 then js_slice d s (e + 1) else []
               | _ \<Rightarrow> []))"

subsection \<open>Tooltip state\<close>

record tick =
  tick_value :: val
  tick_coordinate :: real
  tick_index :: int

text \<open>
  A chart coordinate: the object \<^verbatim>\<open>inRange\<close> returns and the active coordinate of the tooltip.
  A field is \<open>None\<close> where the object has no such property or holds \<^verbatim>\<open>NaN\<close>.
\<close>

record coordinate =
  c_x :: "real option"
  c_y :: "real option"
  c_angle :: "real option"
  c_radius :: "real option"
  c_cx :: "real option"
  c_cy :: "real option"

definition xy :: "real option \<Rightarrow> real option \<Rightarrow> coordinate" where
  "xy a b = \<lparr>c_x = a, c_y = b, c_angle = None, c_radius = None, c_cx = None, c_cy = None\<rparr>"

definition originCoordinate :: coordinate where
  "originCoordinate = xy (Some 0) (Some 0)"

text \<open>The tooltip axis, as the payload assembly reads it; a data key is present when truthy.\<close>

record 'k tooltip_axis =
  ta_dataKey :: "'k option"
  ta_allowDuplicatedCategory :: bool

text \<open>A formatted axis, as the pointer resolution reads it: the \<^verbatim>\<open>invert\<close> of its scale, if any.\<close>

record fmt_axis =
  fa_invert :: "(real \<Rightarrow> val) option"

text \<open>
  The state of a chart instance. The fields that the recompute pipeline derives are absent
  (\<open>None\<close>) until it has run with a valid width and height.
\<close>

record ('d, 'k, 'p, 'a) chart_state =
  chartX :: real
  chartY :: real
  dataStartIndex :: "int option"
  dataEndIndex :: "int option"
  activeTooltipIndex :: int
  isTooltipActive :: bool
  activeLabel :: "val option"
  activePayload :: "'p list option"
  activeCoordinate :: "coordinate option"
  xValue :: "val option"
  yValue :: "val option"
  offset :: "chart_offset option"
  tooltipTicks :: "tick list option"
  orderedTooltipTicks :: "tick list option"
  tooltipAxis :: "'k tooltip_axis option"
  graphicalItems :: "'d item list option"
  xAxisMap :: "'a fmt_axis_scheme list option"
  yAxisMap :: "'a fmt_axis_scheme list option"
  angleAxisMap :: "'a fmt_axis_scheme list option"
  radiusAxisMap :: "'a fmt_axis_scheme list option"

text \<open>
  A partial state: the argument of \<^verbatim>\<open>setState\<close> and the payload of a sync message. The outer
  \<open>option\<close> of a field says whether the object has the property.
\<close>

record 'p partial_state =
  p_chartX :: "real option"
  p_chartY :: "real option"
  p_dataStartIndex :: "int option"
  p_dataEndIndex :: "int option"
  p_activeTooltipIndex :: "int option"
  p_isTooltipActive :: "bool option"
  p_activeLabel :: "val option option"
  p_activePayload :: "'p list option option"
  p_activeCoordinate :: "coordinate option"
  p_xValue :: "val option option"
  p_yValue :: "val option option"

definition empty_partial :: "'p partial_state" where
  "empty_partial =
     \<lparr>p_chartX = None, p_chartY = None, p_dataStartIndex = None, p_dataEndIndex = None,
      p_activeTooltipIndex = None, p_isTooltipActive = None, p_activeLabel = None,
      p_activePayload = None, p_activeCoordinate = None, p_xValue = None, p_yValue = None\<rparr>"

text \<open>
  \<^verbatim>\<open>setState(partial)\<close>: the properties of the partial state replace those of the state. A
  label, a payload or a value that is present and \<^verbatim>\<open>undefined\<close> or \<^verbatim>\<open>null\<close> replaces as well.
\<close>

definition setState ::
  "('d, 'k, 'p, 'a) chart_state \<Rightarrow> 'p partial_state \<Rightarrow> ('d, 'k, 'p, 'a) chart_state" where
  "setState st ps =
     st\<lparr>chartX := (case p_chartX ps of None \<Rightarrow> chartX st | Some v \<Rightarrow> v),
        chartY := (case p_chartY ps of None \<Rightarrow> chartY st | Some v \<Rightarrow> v),
        dataStartIndex := (case p_dataStartIndex ps of None \<Rightarrow> dataStartIndex st
                           | Some v \<Rightarrow> Some v),
        dataEndIndex := (case p_dataEndIndex ps of None \<Rightarrow> dataEndIndex st | Some v \<Rightarrow> Some v),
        activeTooltipIndex := (case p_activeTooltipIndex ps of None \<Rightarrow> activeTooltipIndex st
                               | Some v \<Rightarrow> v),
        isTooltipActive := (case p_isTooltipActive ps of None \<Rightarrow> isTooltipActive st
                            | Some v \<Rightarrow> v),
        activeLabel := (case p_activeLabel ps of None \<Rightarrow> activeLabel st | Some v \<Rightarrow> v),
        activePayload := (case p_activePayload ps of None \<Rightarrow> activePayload st | Some v \<Rightarrow> v),
        activeCoordinate := (case p_activeCoordinate ps of None \<Rightarrow> activeCoordinate st
                             | Some v \<Rightarrow> Some v),
        xValue := (case p_xValue ps of None \<Rightarrow> xValue st | Some v \<Rightarrow> v),
        yValue := (case p_yValue ps of None \<Rightarrow> yValue st | Some v \<Rightarrow> v)\<rparr>"

text \<open>
  The functions that the tooltip code imports from \<^verbatim>\<open>util/ChartUtils\<close>, \<^verbatim>\<open>util/DataUtils\<close> and
  \<^verbatim>\<open>util/PolarUtils\<close>, none of them among the sources: parameters of the model. The array
  that \<open>findEntryInArray\<close> searches may be \<^verbatim>\<open>null\<close> (\<open>None\<close>).
\<close>

record ('d, 'k, 'p, 'a) tip_helpers =
  calculateActiveTickIndex ::
    "real option \<Rightarrow> tick list option \<Rightarrow> tick list option \<Rightarrow> 'k tooltip_axis option \<Rightarrow> int"
  findEntryInArray :: "'d option list option \<Rightarrow> 'k \<Rightarrow> val option \<Rightarrow> 'd option"
  getTooltipItem :: "'d item \<Rightarrow> 'd \<Rightarrow> 'p"
  polarToCartesian ::
    "real option \<Rightarrow> real option \<Rightarrow> real option \<Rightarrow> real option \<Rightarrow> real option \<times> real option"
  inRangeOfSector :: "coordinate \<Rightarrow> 'a fmt_axis_scheme option \<Rightarrow> coordinate option"
  getAnyElementOfObject :: "'a fmt_axis_scheme list \<Rightarrow> 'a fmt_axis_scheme option"

definition calculateTooltipPos :: "coordinate \<Rightarrow> layout \<Rightarrow> real option" where
  "calculateTooltipPos rangeObj lay =
     (if lay = Horizontal then c_x rangeObj
      else if lay = Vertical then c_y rangeObj
      else if lay = Centric then c_angle rangeObj
      else c_radius rangeObj)"

text \<open>
  \<^verbatim>\<open>getActiveCoordinate\<close>: the coordinate of the first tick whose index is the active index,
  combined with the pointer's position; the origin when there is no such tick.
\<close>

definition getActiveCoordinate ::
  "('d, 'k, 'p, 'a) tip_helpers \<Rightarrow> layout \<Rightarrow> tick list \<Rightarrow> int \<Rightarrow> coordinate \<Rightarrow> coordinate" where
  "getActiveCoordinate h lay ticks activeIndex rangeObj =
     (case find (\<lambda>t. tick_index t = activeIndex) ticks of
        Some entry \<Rightarrow>
          (if lay = Horizontal then xy (Some (tick_coordinate entry)) (c_y rangeObj)
           else if lay = Vertical then xy (c_x rangeObj) (Some (tick_coordinate entry))
           else if lay = Centric then
             (let angle = Some (tick_coordinate entry);
                  radius = c_radius rangeObj;
                  p = polarToCartesian h (c_cx rangeObj) (c_cy rangeObj) radius angle
              in rangeObj\<lparr>c_x := fst p, c_y := snd p, c_angle := angle, c_radius := radius\<rparr>)
           else
             (let radius = Some (tick_coordinate entry);
                  angle = c_angle rangeObj;
                  p = polarToCartesian h (c_cx rangeObj) (c_cy rangeObj) radius angle
              in rangeObj\<lparr>c_x := fst p, c_y := snd p, c_angle := angle, c_radius := radius\<rparr>))
      | None \<Rightarrow> originCoordinate)"

text \<open>\<^verbatim>\<open>xs[i]\<close> as a condition: the entry, when there is one and it is not \<^verbatim>\<open>null\<close>.\<close>

definition entry_at :: "'d option list \<Rightarrow> int \<Rightarrow> 'd option" where
  "entry_at xs i = (case js_nth xs i of Some (Some e) \<Rightarrow> Some e | _ \<Rightarrow> None)"

text \<open>\<^verbatim>\<open>(data && data[activeIndex]) || displayedData[activeIndex]\<close>\<close>

definition positionalDatum :: "'d option list nullable \<Rightarrow> 'd option list \<Rightarrow> int \<Rightarrow> 'd option" where
  "positionalDatum data displayedData activeIndex =
     (case (case data of Defined d \<Rightarrow> entry_at d activeIndex | _ \<Rightarrow> None) of
        Some e \<Rightarrow> Some e
      | None \<Rightarrow> entry_at displayedData activeIndex)"

text \<open>
  The data of one series in \<^verbatim>\<open>getTooltipContent\<close>: its own or else the chart's
  (\<^verbatim>\<open>child.props.data ?? chartData\<close>: data of the series that is \<^verbatim>\<open>null\<close> or \<^verbatim>\<open>undefined\<close>
  gives way to the chart's, which may itself be either), cut to the window only when the
  indices do not add up to zero and the window holds the active index. With a window index
  that is no number the sum and the difference are \<^verbatim>\<open>NaN\<close> and the data is not cut.
\<close>

definition seriesData ::
  "('d, 'k, 'p, 'a) chart_state \<Rightarrow> 'd option list nullable \<Rightarrow> int \<Rightarrow> 'd item
     \<Rightarrow> 'd option list nullable" where
  "seriesData st chartData activeIndex child =
     (let data = (case item_data child of Some d \<Rightarrow> Defined d | None \<Rightarrow> chartData)
      in (case (data, dataStartIndex st, dataEndIndex st) of
            (Defined d, Some s, Some e) \<Rightarrow>
              if s + e \<noteq> 0 \<and> e - s \<ge> activeIndex then Defined (js_slice d s (e + 1))
              else Defined d
          | _ \<Rightarrow> data))"

text \<open>
  \<^verbatim>\<open>data === undefined ? displayedData : data\<close>: the displayed data stands in for data that
  is \<^verbatim>\<open>undefined\<close>, not for data that is \<^verbatim>\<open>null\<close>.
\<close>

definition keyedEntries :: "'d option list nullable \<Rightarrow> 'd option list \<Rightarrow> 'd option list option" where
  "keyedEntries data displayedData =
     (case data of Undefined \<Rightarrow> Some displayedData | Null \<Rightarrow> None | Defined d \<Rightarrow> Some d)"

text \<open>
  The body of the reduction in \<^verbatim>\<open>getTooltipContent\<close>: the datum of one series, or nothing.
\<close>

definition tooltipDatum ::
  "('d, 'k, 'p, 'a) tip_helpers \<Rightarrow> ('d, 'k, 'p, 'a) chart_state \<Rightarrow> 'k tooltip_axis
     \<Rightarrow> 'd option list nullable \<Rightarrow> 'd option list \<Rightarrow> int \<Rightarrow> val option \<Rightarrow> 'd item
     \<Rightarrow> 'd option" where
  "tooltipDatum h st axis chartData displayedData activeIndex label child =
     (let data = seriesData st chartData activeIndex child
      in (case ta_dataKey axis of
            Some key \<Rightarrow>
              if \<not> ta_allowDuplicatedCategory axis then
                findEntryInArray h (keyedEntries data displayedData) key label
              else positionalDatum data displayedData activeIndex
          | None \<Rightarrow> positionalDatum data displayedData activeIndex))"

definition tooltipContent_step ::
  "('d, 'k, 'p, 'a) tip_helpers \<Rightarrow> ('d, 'k, 'p, 'a) chart_state \<Rightarrow> 'k tooltip_axis
     \<Rightarrow> 'd option list nullable \<Rightarrow> 'd option list \<Rightarrow> int \<Rightarrow> val option \<Rightarrow> 'p list \<Rightarrow> 'd item
     \<Rightarrow> 'p list" where
  "tooltipContent_step h st axis chartData displayedData activeIndex label result child =
     (case tooltipDatum h st axis chartData displayedData activeIndex label child of
        None \<Rightarrow> result
      | Some payload \<Rightarrow> result @ [getTooltipItem h child payload])"

text \<open>
  \<^verbatim>\<open>getTooltipContent\<close>. \<open>Inr None\<close> is the \<^verbatim>\<open>null\<close> it returns for an index outside the displayed
  data or a chart without items; reading the data key of a missing tooltip axis is a
  \<^verbatim>\<open>TypeError\<close>.
\<close>

definition getTooltipContent ::
  "('d, 'k, 'p, 'a) tip_helpers \<Rightarrow> ('d, 'k, 'p, 'a) chart_state \<Rightarrow> 'd option list nullable \<Rightarrow> int
     \<Rightarrow> val option \<Rightarrow> error + 'p list option" where
  "getTooltipContent h st chartData activeIndex label =
     (let displayedData = getDisplayedData chartData (graphicalItems st) (dataStartIndex st)
                            (dataEndIndex st)
      in (case graphicalItems st of
            None \<Rightarrow> Inr None
          | Some its \<Rightarrow>
              if activeIndex < 0 \<or> length its = 0 \<or> activeIndex \<ge> int (length displayedData)
              then Inr None
              else (case tooltipAxis st of
                      None \<Rightarrow> Inl TypeError
                    | Some axis \<Rightarrow>
                        Inr (Some (foldl (tooltipContent_step h st axis chartData displayedData
                                            activeIndex label) [] its)))))"

subsection \<open>The chart's properties\<close>

text \<open>
  How a receiver of a sync message finds its active index: by the index, by the label, or by
  a function of the application.
\<close>

datatype 'f sync_method = SyncIndex | SyncValue | SyncFunction 'f

record ('d, 'c, 'f) chart_props = size_props +
  prop_layout :: layout
  prop_stackOffset :: stack_offset
  prop_data :: "'d option list nullable"
  prop_children :: 'c
  prop_defaultShowTooltip :: bool
  prop_syncId :: "val option"
  prop_syncMethod :: "'f sync_method"

subsection \<open>The domain of an axis\<close>

datatype axis_kind = NumberType | CategoryType

text \<open>
  The properties of an axis element, merged with the defaults of its component. A domain of
  the user is an array of values; its special entries (\<^verbatim>\<open>'auto'\<close>, \<^verbatim>\<open>'dataMin'\<close>) are
  strings. A data key is present when truthy. The orientation is absent where the
  properties hold \<^verbatim>\<open>null\<close>.
\<close>

record 'k axis_props =
  ax_id :: axis_id
  ax_hide :: bool
  ax_orientation :: "string option"
  ax_type :: axis_kind
  ax_dataKey :: "'k option"
  ax_allowDataOverflow :: bool
  ax_allowDuplicatedCategory :: bool
  ax_scale :: string
  ax_ticks :: "val list option"
  ax_includeHidden :: bool
  ax_domain :: "val list option"

record 'g stack_entry =
  hasStack :: bool
  stackGroups :: 'g

text \<open>The entry of the axis map: the properties and what the resolution adds to them.\<close>

record 'k axis_entry = "'k axis_props" +
  axisType :: axis_type
  domain :: "val list"
  categoricalDomain :: "val list option"
  duplicateDomain :: "val list option"
  originalDomain :: "val list option"
  isCategorical :: bool
  axis_layout :: layout

text \<open>
  The functions that the domain resolution imports from \<^verbatim>\<open>util/ChartUtils\<close>,
  \<^verbatim>\<open>util/DataUtils\<close>, \<^verbatim>\<open>util/isDomainSpecifiedByUser\<close> and
  \<^verbatim>\<open>util/DetectReferenceElementsDomain\<close>, none of them among the sources: parameters of the
  model. An argument that a call leaves out is \<open>None\<close>: the last one of
  \<open>getDomainOfItemsWithSameAxis\<close> and of \<open>detectReferenceElementsDomain\<close>; the axis id that
  the latter gets is \<^verbatim>\<open>undefined\<close> (\<open>None\<close>) for an item that names no axis.
\<close>

record ('d, 'k, 'c, 'g) dom_helpers =
  isCategoricalAxis :: "layout \<Rightarrow> axis_type \<Rightarrow> bool"
  isDomainSpecifiedByUser :: "val list option \<Rightarrow> bool \<Rightarrow> axis_kind \<Rightarrow> bool"
  parseSpecifiedDomain :: "val list option \<Rightarrow> val list option \<Rightarrow> bool \<Rightarrow> val list"
  getDomainOfDataByKey :: "'d option list \<Rightarrow> 'k option \<Rightarrow> axis_kind \<Rightarrow> val list"
  hasDuplicate :: "val list \<Rightarrow> bool"
  parseDomainOfCategoryAxis :: "val list option \<Rightarrow> val list \<Rightarrow> 'k axis_props \<Rightarrow> val list"
  parseErrorBarsOfAxis ::
    "'d option list \<Rightarrow> 'd item list \<Rightarrow> 'k \<Rightarrow> axis_type \<Rightarrow> layout \<Rightarrow> val list option"
  getDomainOfStackGroups :: "'g \<Rightarrow> int option \<Rightarrow> int option \<Rightarrow> val list"
  getDomainOfItemsWithSameAxis ::
    "'d option list \<Rightarrow> 'd item list \<Rightarrow> axis_kind \<Rightarrow> layout \<Rightarrow> bool option \<Rightarrow> val list"
  detectReferenceElementsDomain ::
    "'c \<Rightarrow> val list \<Rightarrow> axis_id option \<Rightarrow> axis_type \<Rightarrow> val list option \<Rightarrow> val list"

definition getDefaultDomainByAxisType :: "axis_kind \<Rightarrow> val list option" where
  "getDefaultDomainByAxisType t = (if t = NumberType then Some [Num 0, Str ''auto''] else None)"

text \<open>
  The two reductions that remove duplicated categories: an entry is added unless the list
  built so far has it; the second one also drops the empty string and \<^verbatim>\<open>null\<close>.
\<close>

definition dedupe_step :: "val list \<Rightarrow> val \<Rightarrow> val list" where
  "dedupe_step finalDomain entry =
     (if entry \<in> set finalDomain then finalDomain else finalDomain @ [entry])"

definition dedupe_nonempty_step :: "val list \<Rightarrow> val \<Rightarrow> val list" where
  "dedupe_nonempty_step finalDomain entry =
     (if entry \<in> set finalDomain \<or> entry = Str [] \<or> isNil entry then finalDomain
      else finalDomain @ [entry])"

text \<open>
  The first-occurrence-ordered list of the unique values of a list, in the words of the
  specification.
\<close>

fun firstOccurrences :: "'a list \<Rightarrow> 'a list" where
  "firstOccurrences [] = []"
| "firstOccurrences (x # xs) = x # filter (\<lambda>y. y \<noteq> x) (firstOccurrences xs)"

text \<open>The items that name this axis, and those of them that count for its numeric domain.\<close>

definition itemsOfAxis :: "axis_type \<Rightarrow> axis_id \<Rightarrow> 'd item list \<Rightarrow> 'd item list" where
  "itemsOfAxis aType axisId its = filter (\<lambda>item. item_axisId item aType = Some axisId) its"

definition shownItemsOfAxis ::
  "axis_type \<Rightarrow> axis_id \<Rightarrow> bool \<Rightarrow> 'd item list \<Rightarrow> 'd item list" where
  "shownItemsOfAxis aType axisId includeHidden its =
     filter (\<lambda>item. item_axisId item aType = Some axisId \<and> (includeHidden \<or> \<not> item_hide item)) its"

text \<open>
  The body of the reduction in \<^verbatim>\<open>getAxisMapByAxes\<close>, for an axis under whose key the map has
  nothing yet: the domain, the duplicate domain and the categorical domain of the axis. The
  first \<^verbatim>\<open>if\<close> adopts a domain of the user; the second one computes the domain when none was
  adopted or the adopted one is empty. The stack groups are an object, read by the key of
  the axis id: the function gives the properties of its own.
\<close>

definition axisDomains ::
  "('d, 'k, 'c, 'g) dom_helpers \<Rightarrow> ('d, 'c, 'f, 'z) chart_props_scheme \<Rightarrow> 'd item list
     \<Rightarrow> axis_type \<Rightarrow> (string \<Rightarrow> 'g stack_entry option) option \<Rightarrow> int option \<Rightarrow> int option
     \<Rightarrow> 'k axis_props \<Rightarrow> val list \<times> val list option \<times> val list option" where
  "axisDomains h props items aType stackGrps startIndex endIndex child =
     (let lay = prop_layout props;
          isCat = isCategoricalAxis h lay aType;
          type = ax_type child;
          dataKey = ax_dataKey child;
          axisId = ax_id child;
          displayedData = getDisplayedData (prop_data props) (Some (itemsOfAxis aType axisId items))
                            startIndex endIndex;
          len = length displayedData;
          specified = isDomainSpecifiedByUser h (ax_domain child) (ax_allowDataOverflow child) type;
          domain0 = (if specified
                     then Some (parseSpecifiedDomain h (ax_domain child) None
                                  (ax_allowDataOverflow child))
                     else None);
          categorical0 = (if specified \<and> isCat \<and> (type = NumberType \<or> ax_scale child \<noteq> ''auto'')
                          then Some (getDomainOfDataByKey h displayedData dataKey CategoryType)
                          else None);
          defaultDomain = getDefaultDomainByAxisType type
      in (case domain0 of
            Some (e # es) \<Rightarrow> (e # es, None, categorical0)
          | _ \<Rightarrow>
            (let childDomain = (case ax_domain child of Some d \<Rightarrow> Some d | None \<Rightarrow> defaultDomain);
                 (domain1, duplicateDomain, categoricalDomain) =
                   (case dataKey of
                      Some key \<Rightarrow>
                        (let extracted = getDomainOfDataByKey h displayedData (Some key) type;
                             (d, dup) =
                               (if type = CategoryType \<and> isCat then
                                  (if ax_allowDuplicatedCategory child \<and> hasDuplicate h extracted
                                   then (range0 len, Some extracted)
                                   else if \<not> ax_allowDuplicatedCategory child
                                   then (foldl dedupe_step []
                                           (parseDomainOfCategoryAxis h childDomain extracted child),
                                         None)
                                   else (extracted, None))
                                else if type = CategoryType then
                                  (if \<not> ax_allowDuplicatedCategory child
                                   then (foldl dedupe_nonempty_step []
                                           (parseDomainOfCategoryAxis h childDomain extracted child),
                                         None)
                                   else (filter (\<lambda>entry. entry \<noteq> Str [] \<and> \<not> isNil entry) extracted,
                                         None))
                                else
                                  (case parseErrorBarsOfAxis h displayedData
                                          (shownItemsOfAxis aType axisId (ax_includeHidden child) items)
                                          key aType lay of
                                     Some errorBarsDomain \<Rightarrow> (errorBarsDomain, None)
                                   | None \<Rightarrow> (extracted, None)))
                         in (d, dup,
                             if isCat \<and> (type = NumberType \<or> ax_scale child \<noteq> ''auto'')
                             then Some (getDomainOfDataByKey h displayedData (Some key) CategoryType)
                             else categorical0))
                    | None \<Rightarrow>
                        (if isCat then (range0 len, None, categorical0)
                         else (case (case stackGrps of None \<Rightarrow> None
                                     | Some sg \<Rightarrow> sg (propertyKey axisId)) of
                                 Some entry \<Rightarrow>
                                   if hasStack entry \<and> type = NumberType then
                                     (if prop_stackOffset props = Expand then [Num 0, Num 1]
                                      else getDomainOfStackGroups h (stackGroups entry)
                                             startIndex endIndex,
                                      None, categorical0)
                                   else
                                     (getDomainOfItemsWithSameAxis h displayedData
                                        (shownItemsOfAxis aType axisId (ax_includeHidden child) items)
                                        type lay (Some True),
                                      None, categorical0)
                               | None \<Rightarrow>
                                   (getDomainOfItemsWithSameAxis h displayedData
                                      (shownItemsOfAxis aType axisId (ax_includeHidden child) items)
                                      type lay (Some True),
                                    None, categorical0))));
                 domain2 =
                   (if type = NumberType then
                      (let referenced = detectReferenceElementsDomain h (prop_children props) domain1
                                          (Some axisId) aType (ax_ticks child)
                       in (case childDomain of
                             Some cd \<Rightarrow> parseSpecifiedDomain h (Some cd) (Some referenced)
                                          (ax_allowDataOverflow child)
                           | None \<Rightarrow> referenced))
                    else
                      (case childDomain of
                         Some axisDomain \<Rightarrow>
                           if list_all (\<lambda>entry. entry \<in> set axisDomain) domain1 then axisDomain
                           else domain1
                       | None \<Rightarrow> domain1))
             in (domain2, duplicateDomain, categoricalDomain))))"

definition getAxisMapByAxes_entry ::
  "('d, 'k, 'c, 'g) dom_helpers \<Rightarrow> ('d, 'c, 'f, 'z) chart_props_scheme \<Rightarrow> 'd item list
     \<Rightarrow> axis_type \<Rightarrow> (string \<Rightarrow> 'g stack_entry option) option \<Rightarrow> int option \<Rightarrow> int option
     \<Rightarrow> 'k axis_props \<Rightarrow> 'k axis_entry" where
  "getAxisMapByAxes_entry h props items aType stackGrps startIndex endIndex child =
     (let (d, dup, cat) = axisDomains h props items aType stackGrps startIndex endIndex child
      in axis_props.extend child
           \<lparr>axisType = aType, domain = d, categoricalDomain = cat, duplicateDomain = dup,
            originalDomain = (case ax_domain child of Some ud \<Rightarrow> Some ud
                              | None \<Rightarrow> getDefaultDomainByAxisType (ax_type child)),
            isCategorical = isCategoricalAxis h (prop_layout props) aType,
            axis_layout = prop_layout props\<rparr>)"

text \<open>
  \<^verbatim>\<open>getAxisMapByAxes\<close>: the map from the keys of the axis ids to the entries, as the list of
  its pairs in the order of insertion (the properties below read it by key only); an axis
  for whose key \<^verbatim>\<open>result[axisId]\<close> is truthy is skipped.
\<close>

definition getAxisMapByAxes_step ::
  "('d, 'k, 'c, 'g) dom_helpers \<Rightarrow> ('d, 'c, 'f, 'z) chart_props_scheme \<Rightarrow> 'd item list
     \<Rightarrow> axis_type \<Rightarrow> (string \<Rightarrow> 'g stack_entry option) option \<Rightarrow> int option \<Rightarrow> int option
     \<Rightarrow> (string \<times> 'k axis_entry) list \<Rightarrow> 'k axis_props \<Rightarrow> (string \<times> 'k axis_entry) list" where
  "getAxisMapByAxes_step h props items aType stackGrps startIndex endIndex result child =
     (if truthyProperty result (propertyKey (ax_id child)) then result
      else result @ [(propertyKey (ax_id child),
                      getAxisMapByAxes_entry h props items aType stackGrps startIndex endIndex child)])"

definition getAxisMapByAxes ::
  "('d, 'k, 'c, 'g) dom_helpers \<Rightarrow> ('d, 'c, 'f, 'z) chart_props_scheme \<Rightarrow> 'k axis_props list
     \<Rightarrow> 'd item list \<Rightarrow> axis_type \<Rightarrow> (string \<Rightarrow> 'g stack_entry option) option \<Rightarrow> int option
     \<Rightarrow> int option \<Rightarrow> (string \<times> 'k axis_entry) list" where
  "getAxisMapByAxes h props axes items aType stackGrps startIndex endIndex =
     foldl (getAxisMapByAxes_step h props items aType stackGrps startIndex endIndex) [] axes"

text \<open>
  \<^verbatim>\<open>get(ORIENT_MAP, `${axisType}.${index % 2}`, null)\<close>: the map has the x and the y axis only.
\<close>

definition orientationOf :: "axis_type \<Rightarrow> int \<Rightarrow> string option" where
  "orientationOf aType index =
     (if aType = XAxis then Some (if index mod 2 = 0 then ''bottom'' else ''top'')
      else if aType = YAxis then Some (if index mod 2 = 0 then ''left'' else ''right'')
      else None)"

text \<open>
  The domain of an axis that no axis element declares, in \<^verbatim>\<open>getAxisMapByItems\<close>: the index
  range on the categorical axis; with stacked items what \<open>getDomainOfStackGroups\<close> returns,
  whatever the offset mode; else the domain of the items, merged with the default domain of
  a numeric axis. The last two are extended by the reference elements.
\<close>

definition itemsAxisDomain ::
  "('d, 'k, 'c, 'g) dom_helpers \<Rightarrow> ('d, 'c, 'f, 'z) chart_props_scheme \<Rightarrow> 'k axis_props
     \<Rightarrow> 'd item list \<Rightarrow> axis_type \<Rightarrow> (string \<Rightarrow> 'g stack_entry option) option \<Rightarrow> int option
     \<Rightarrow> int option \<Rightarrow> axis_id option \<Rightarrow> val list" where
  "itemsAxisDomain h props defaults items aType stackGrps startIndex endIndex axisId =
     (let lay = prop_layout props;
          displayedData = getDisplayedData (prop_data props) (Some items) startIndex endIndex;
          len = length displayedData;
          originalDomain = getDefaultDomainByAxisType NumberType;
          unstacked =
            detectReferenceElementsDomain h (prop_children props)
              (parseSpecifiedDomain h originalDomain
                 (Some (getDomainOfItemsWithSameAxis h displayedData
                          (filter (\<lambda>item. item_axisId item aType = axisId \<and> \<not> item_hide item) items)
                          NumberType lay None))
                 (ax_allowDataOverflow defaults))
              axisId aType None
      in if isCategoricalAxis h lay aType then range0 len
         else (case (case stackGrps of None \<Rightarrow> None | Some sg \<Rightarrow> sg (propertyKeyOf axisId)) of
                 Some entry \<Rightarrow>
                   if hasStack entry then
                     detectReferenceElementsDomain h (prop_children props)
                       (getDomainOfStackGroups h (stackGroups entry) startIndex endIndex)
                       axisId aType None
                   else unstacked
               | None \<Rightarrow> unstacked))"

text \<open>
  \<^verbatim>\<open>getAxisMapByItems\<close>: one hidden axis for each key that the items name, with the default
  properties of the axis component (the parameter \<open>defaults\<close>). The reduction counts the axes
  it adds in \<^verbatim>\<open>index\<close>, from \<open>-1\<close>.
\<close>

definition getAxisMapByItems_step ::
  "('d, 'k, 'c, 'g) dom_helpers \<Rightarrow> ('d, 'c, 'f, 'z) chart_props_scheme \<Rightarrow> 'k axis_props
     \<Rightarrow> 'd item list \<Rightarrow> axis_type \<Rightarrow> (string \<Rightarrow> 'g stack_entry option) option \<Rightarrow> int option
     \<Rightarrow> int option \<Rightarrow> (string \<times> 'k axis_entry) list \<times> int \<Rightarrow> 'd item
     \<Rightarrow> (string \<times> 'k axis_entry) list \<times> int" where
  "getAxisMapByItems_step h props defaults items aType stackGrps startIndex endIndex acc child =
     (let result = fst acc;
          index = snd acc;
          axisId = item_axisId child aType
      in if truthyProperty result (propertyKeyOf axisId) then (result, index)
         else (result @
                 [(propertyKeyOf axisId,
                   axis_props.extend
                     (defaults\<lparr>ax_hide := True, ax_orientation := orientationOf aType (index + 1)\<rparr>)
                     \<lparr>axisType = aType,
                      domain = itemsAxisDomain h props defaults items aType stackGrps startIndex
                                 endIndex axisId,
                      categoricalDomain = None, duplicateDomain = None,
                      originalDomain = getDefaultDomainByAxisType NumberType,
                      isCategorical = isCategoricalAxis h (prop_layout props) aType,
                      axis_layout = prop_layout props\<rparr>)],
               index + 1))"

definition getAxisMapByItems ::
  "('d, 'k, 'c, 'g) dom_helpers \<Rightarrow> ('d, 'c, 'f, 'z) chart_props_scheme \<Rightarrow> 'k axis_props
     \<Rightarrow> 'd item list \<Rightarrow> axis_type \<Rightarrow> (string \<Rightarrow> 'g stack_entry option) option \<Rightarrow> int option
     \<Rightarrow> int option \<Rightarrow> (string \<times> 'k axis_entry) list" where
  "getAxisMapByItems h props defaults items aType stackGrps startIndex endIndex =
     fst (foldl (getAxisMapByItems_step h props defaults items aType stackGrps startIndex endIndex)
            ([], - 1) items)"

text \<open>
  \<^verbatim>\<open>getAxisMap\<close>: from the axis elements among the children (the parameter \<open>axes\<close>, what
  \<^verbatim>\<open>findAllByType\<close> returns) when there are any, else from the items, else empty.
\<close>

definition getAxisMap ::
  "('d, 'k, 'c, 'g) dom_helpers \<Rightarrow> ('d, 'c, 'f, 'z) chart_props_scheme \<Rightarrow> 'k axis_props
     \<Rightarrow> 'k axis_props list \<Rightarrow> 'd item list \<Rightarrow> axis_type
     \<Rightarrow> (string \<Rightarrow> 'g stack_entry option) option \<Rightarrow> int option \<Rightarrow> int option
     \<Rightarrow> (string \<times> 'k axis_entry) list" where
  "getAxisMap h props defaults axes items aType stackGrps startIndex endIndex =
     (if length axes \<noteq> 0
      then getAxisMapByAxes h props axes items aType stackGrps startIndex endIndex
      else if length items \<noteq> 0
      then getAxisMapByItems h props defaults items aType stackGrps startIndex endIndex
      else [])"

subsection \<open>Resolving the pointer\<close>


text \<open>
  \<^verbatim>\<open>getTooltipData\<close>: the active tick index of the pointer's position, and with it the label,
  the payload and the coordinate; \<^verbatim>\<open>null\<close> when the index is negative or there are no
  tooltip ticks. Calling \<^verbatim>\<open>find\<close> on missing ordered ticks is a \<^verbatim>\<open>TypeError\<close>.
\<close>

definition getTooltipData ::
  "('d, 'k, 'p, 'a) tip_helpers \<Rightarrow> ('d, 'k, 'p, 'a) chart_state \<Rightarrow> 'd option list nullable
     \<Rightarrow> layout \<Rightarrow> coordinate option \<Rightarrow> error + 'p partial_state option" where
  "getTooltipData h st chartData lay rangeObj =
     (let rangeData = (case rangeObj of
                         Some r \<Rightarrow> r
                       | None \<Rightarrow> xy (Some (chartX st)) (Some (chartY st)));
          pos = calculateTooltipPos rangeData lay;
          activeIndex = calculateActiveTickIndex h pos (orderedTooltipTicks st) (tooltipTicks st)
                          (tooltipAxis st)
      in (case tooltipTicks st of
            None \<Rightarrow> Inr None
          | Some tts \<Rightarrow>
              if activeIndex \<ge> 0 then
                (let label = map_option tick_value (js_nth tts activeIndex)
                 in (case getTooltipContent h st chartData activeIndex label of
                       Inl e \<Rightarrow> Inl e
                     | Inr payload \<Rightarrow>
                         (case orderedTooltipTicks st of
                            None \<Rightarrow> Inl TypeError
                          | Some ticks \<Rightarrow>
                              Inr (Some (empty_partial
                                \<lparr>p_activeTooltipIndex := Some activeIndex,
                                 p_activeLabel := Some label,
                                 p_activePayload := Some payload,
                                 p_activeCoordinate :=
                                   Some (getActiveCoordinate h lay ticks activeIndex rangeData)\<rparr>)))))
              else Inr None))"

text \<open>
  The container of the chart in the document, as \<^verbatim>\<open>getMouseInfo\<close> reads it: the offset of its
  bounding rectangle in the page, the width of that rectangle, and its layout width.
\<close>

record container =
  ct_left :: real
  ct_top :: real
  ct_rectWidth :: real
  ct_offsetWidth :: real

record mouse_pointer =
  pageX :: real
  pageY :: real

text \<open>\<^verbatim>\<open>Math.round\<close>: the nearest integer, a half rounded up.\<close>

definition js_round :: "real \<Rightarrow> real" where
  "js_round r = of_int \<lfloor>r + 1 / 2\<rfloor>"

text \<open>
  \<^verbatim>\<open>boundingRect.width / element.offsetWidth || 1\<close>: a quotient that is zero or \<^verbatim>\<open>NaN\<close> gives 1;
  \<open>None\<close> is the \<^verbatim>\<open>Infinity\<close> of a positive width over a layout width of zero, and a finite
  number divided by it is zero.
\<close>

definition pointerScale :: "container \<Rightarrow> real option" where
  "pointerScale c =
     (if ct_offsetWidth c = 0 then (if ct_rectWidth c = 0 then Some 1 else None)
      else if ct_rectWidth c / ct_offsetWidth c = 0 then Some 1
      else Some (ct_rectWidth c / ct_offsetWidth c))"

definition scaled :: "real \<Rightarrow> real option \<Rightarrow> real" where
  "scaled x sc = (case sc of None \<Rightarrow> 0 | Some s \<Rightarrow> x / s)"

text \<open>\<^verbatim>\<open>a <= b + c\<close> where \<^verbatim>\<open>c\<close> may be \<^verbatim>\<open>NaN\<close>: false then.\<close>

definition le_plus :: "real \<Rightarrow> real \<Rightarrow> real option \<Rightarrow> bool" where
  "le_plus a b c = (case c of None \<Rightarrow> False | Some w \<Rightarrow> a \<le> b + w)"

datatype tooltip_event_type = AxisEvent | ItemEvent

text \<open>
  A chart instance: its properties, its state, its emitter identity, its container (absent
  until the chart is rendered) and the event type of its tooltip.
\<close>

record ('d, 'k, 'p, 'a, 'c) chart_instance =
  inst_props :: "('d, 'c, tick list option \<Rightarrow> 'p partial_state \<Rightarrow> int) chart_props"
  inst_state :: "('d, 'k, 'p, 'a) chart_state"
  eventEmitterSymbol :: nat
  inst_container :: "container option"
  tooltipEventType :: tooltip_event_type

text \<open>
  \<^verbatim>\<open>inRange(x, y, scale)\<close>: for the cartesian layouts the pointer, scaled, must lie in the plot
  rectangle of the offset (reading a missing offset is a \<^verbatim>\<open>TypeError\<close>); for the polar layouts
  \<open>inRangeOfSector\<close> decides, when both polar axis maps are there.
\<close>

definition inRange ::
  "('d, 'k, 'p, 'a) tip_helpers \<Rightarrow> ('d, 'k, 'p, 'a, 'c) chart_instance \<Rightarrow> real \<Rightarrow> real \<Rightarrow> real option
     \<Rightarrow> error + coordinate option" where
  "inRange h inst x y sc =
     (let lay = prop_layout (inst_props inst);
          scaledX = scaled x sc;
          scaledY = scaled y sc
      in if lay = Horizontal \<or> lay = Vertical then
           (case offset (inst_state inst) of
              None \<Rightarrow> Inl TypeError
            | Some off \<Rightarrow>
                if scaledX \<ge> o_left off \<and> le_plus scaledX (o_left off) (o_width off)
                   \<and> scaledY \<ge> o_top off \<and> le_plus scaledY (o_top off) (o_height off)
                then Inr (Some (xy (Some scaledX) (Some scaledY)))
                else Inr None)
         else
           (case (angleAxisMap (inst_state inst), radiusAxisMap (inst_state inst)) of
              (Some am, Some rm) \<Rightarrow>
                Inr (inRangeOfSector h (xy (Some scaledX) (Some scaledY))
                       (getAnyElementOfObject h am))
            | _ \<Rightarrow> Inr None))"

text \<open>
  \<^verbatim>\<open>getMouseInfo(event)\<close>: \<^verbatim>\<open>null\<close> without a container and for a pointer that is not in range;
  else the chart coordinates of the pointer with the tooltip data. For a tooltip of items
  the values of the two scales at the pointer are added; reading the scale of a missing axis
  is a \<^verbatim>\<open>TypeError\<close>.
\<close>

definition getMouseInfo ::
  "('d, 'k, 'p, 'a) tip_helpers \<Rightarrow> ('d, 'k, 'p, 'a, 'c) chart_instance \<Rightarrow> mouse_pointer
     \<Rightarrow> error + 'p partial_state option" where
  "getMouseInfo h inst event =
     (case inst_container inst of
        None \<Rightarrow> Inr None
      | Some c \<Rightarrow>
          (let ex = js_round (pageX event - ct_left c);
               ey = js_round (pageY event - ct_top c);
               st = inst_state inst
           in (case inRange h inst ex ey (pointerScale c) of
                 Inl e \<Rightarrow> Inl e
               | Inr None \<Rightarrow> Inr None
               | Inr (Some rangeObj) \<Rightarrow>
                   (case getTooltipData h st (prop_data (inst_props inst))
                           (prop_layout (inst_props inst)) (Some rangeObj) of
                      Inl e \<Rightarrow> Inl e
                    | Inr toolTipData \<Rightarrow>
                        (let base = (case toolTipData of None \<Rightarrow> empty_partial | Some t \<Rightarrow> t)
                                      \<lparr>p_chartX := Some ex, p_chartY := Some ey\<rparr>
                         in (case (tooltipEventType inst, xAxisMap st, yAxisMap st) of
                               (ItemEvent, Some xm, Some ym) \<Rightarrow>
                                 (case (getAnyElementOfObject h xm, getAnyElementOfObject h ym) of
                                    (Some xa, Some ya) \<Rightarrow>
                                      Inr (Some (base
                                        \<lparr>p_xValue := Some (map_option (\<lambda>f. f ex) (fa_invert xa)),
                                         p_yValue := Some (map_option (\<lambda>f. f ey) (fa_invert ya))\<rparr>))
                                  | _ \<Rightarrow> Inl TypeError)
                             | _ \<Rightarrow>
                                 (case toolTipData of
                                    None \<Rightarrow> Inr None
                                  | Some t \<Rightarrow> Inr (Some base))))))))"

text \<open>
  \<^verbatim>\<open>triggeredAfterMouseMove(e)\<close>: the next state is the mouse information with an active
  tooltip, or an inactive tooltip when there is none. The result is the new state and the
  sync message that is emitted when the chart has a sync id. The \<^verbatim>\<open>onMouseMove\<close> callback of
  the application, called last, is outside the model.
\<close>

definition triggeredAfterMouseMove ::
  "('d, 'k, 'p, 'a) tip_helpers \<Rightarrow> ('d, 'k, 'p, 'a, 'c) chart_instance \<Rightarrow> mouse_pointer
     \<Rightarrow> error + ('d, 'k, 'p, 'a) chart_state \<times> (val \<times> 'p partial_state \<times> nat) option" where
  "triggeredAfterMouseMove h inst e =
     (case getMouseInfo h inst e of
        Inl err \<Rightarrow> Inl err
      | Inr mouse \<Rightarrow>
          (let nextState = (case mouse of
                              Some m \<Rightarrow> m\<lparr>p_isTooltipActive := Some True\<rparr>
                            | None \<Rightarrow> empty_partial\<lparr>p_isTooltipActive := Some False\<rparr>)
           in Inr (setState (inst_state inst) nextState,
                   map_option (\<lambda>sid. (sid, nextState, eventEmitterSymbol inst))
                     (prop_syncId (inst_props inst)))))"

subsection \<open>Synchronisation\<close>

text \<open>
  What the recompute pipeline adds to the state when the width and height are valid.
\<close>

record ('d, 'k, 'a) derived =
  dv_graphicalItems :: "'d item list"
  dv_offset :: chart_offset
  dv_tooltipTicks :: "tick list option"
  dv_orderedTooltipTicks :: "tick list"
  dv_tooltipAxis :: "'k tooltip_axis option"
  dv_xAxisMap :: "'a fmt_axis_scheme list option"
  dv_yAxisMap :: "'a fmt_axis_scheme list option"
  dv_angleAxisMap :: "'a fmt_axis_scheme list option"
  dv_radiusAxisMap :: "'a fmt_axis_scheme list option"

definition mergeDerived ::
  "('d, 'k, 'p, 'a) chart_state \<Rightarrow> ('d, 'k, 'a) derived \<Rightarrow> ('d, 'k, 'p, 'a) chart_state" where
  "mergeDerived st dv =
     st\<lparr>graphicalItems := Some (dv_graphicalItems dv),
        offset := Some (dv_offset dv),
        tooltipTicks := dv_tooltipTicks dv,
        orderedTooltipTicks := Some (dv_orderedTooltipTicks dv),
        tooltipAxis := dv_tooltipAxis dv,
        xAxisMap := (case dv_xAxisMap dv of None \<Rightarrow> xAxisMap st | Some m \<Rightarrow> Some m),
        yAxisMap := (case dv_yAxisMap dv of None \<Rightarrow> yAxisMap st | Some m \<Rightarrow> Some m),
        angleAxisMap := (case dv_angleAxisMap dv of None \<Rightarrow> angleAxisMap st | Some m \<Rightarrow> Some m),
        radiusAxisMap := (case dv_radiusAxisMap dv of None \<Rightarrow> radiusAxisMap st
                          | Some m \<Rightarrow> Some m)\<rparr>"

text \<open>
  The loop of the \<^verbatim>\<open>'value'\<close> method: the index of the first tick whose value is the label,
  or \<open>-1\<close>.
\<close>

fun indexOfValue :: "tick list \<Rightarrow> val \<Rightarrow> int \<Rightarrow> int" where
  "indexOfValue [] v i = - 1"
| "indexOfValue (t # ts) v i = (if tick_value t = v then i else indexOfValue ts v (i + 1))"

text \<open>\<^verbatim>\<open>Math.min(a, b + c)\<close>, which is \<^verbatim>\<open>NaN\<close> when an argument is missing or \<^verbatim>\<open>NaN\<close>.\<close>

definition min_plus :: "real option \<Rightarrow> real \<Rightarrow> real option \<Rightarrow> real option" where
  "min_plus a b c =
     (case (a, c) of (Some v, Some w) \<Rightarrow> Some (min v (b + w)) | _ \<Rightarrow> None)"

text \<open>
  \<^verbatim>\<open>applySyncEvent(data)\<close>. A message with a window index re-runs the pipeline with the window
  of the message; a message with a tooltip index sets the tooltip of the receiver, unless it
  has no offset; any other message is merged into the state. Every method reads the tooltip
  ticks, the \<^verbatim>\<open>'value'\<close> method their length and all of them the tick at the index: missing
  ticks are a \<^verbatim>\<open>TypeError\<close>.
\<close>

definition applySyncEvent ::
  "('d, 'k, 'p, 'a) tip_helpers
     \<Rightarrow> (('d, 'c, tick list option \<Rightarrow> 'p partial_state \<Rightarrow> int) chart_props
           \<Rightarrow> int option \<times> int option \<Rightarrow> ('d, 'k, 'p, 'a) chart_state option
           \<Rightarrow> error + ('d, 'k, 'a) derived)
     \<Rightarrow> ('d, 'k, 'p, 'a, 'c) chart_instance \<Rightarrow> 'p partial_state
     \<Rightarrow> error + ('d, 'k, 'p, 'a) chart_state" where
  "applySyncEvent h pipeline inst data =
     (let props = inst_props inst;
          st = inst_state inst
      in if p_dataStartIndex data \<noteq> None \<or> p_dataEndIndex data \<noteq> None then
           (case updateStateOfAxisMapsOffsetAndStackGroups pipeline props
                   (p_dataStartIndex data, p_dataEndIndex data) (Some st) of
              Inl e \<Rightarrow> Inl e
            | Inr u \<Rightarrow>
                (let st' = st\<lparr>dataStartIndex := p_dataStartIndex data,
                              dataEndIndex := p_dataEndIndex data\<rparr>
                 in Inr (case u of None \<Rightarrow> st' | Some dv \<Rightarrow> mergeDerived st' dv)))
         else
           (case p_activeTooltipIndex data of
              Some index0 \<Rightarrow>
                (case offset st of
                   None \<Rightarrow> Inr st
                 | Some off \<Rightarrow>
                     (case tooltipTicks st of
                            None \<Rightarrow> Inl TypeError
                          | Some tts \<Rightarrow>
                              (let activeIndex =
                                     (case prop_syncMethod props of
                                        SyncFunction f \<Rightarrow> f (tooltipTicks st) data
                                      | SyncValue \<Rightarrow>
                                          indexOfValue tts
                                            (case p_activeLabel data of
                                               Some (Some v) \<Rightarrow> v
                                             | _ \<Rightarrow> Nil) 0
                                      | SyncIndex \<Rightarrow> index0);
                                   validateChartX = min_plus (p_chartX data) (o_left off)
                                                      (o_width off);
                                   validateChartY = min_plus (p_chartY data) (o_top off)
                                                      (o_height off);
                                   label = map_option tick_value (js_nth tts activeIndex)
                               in (case getTooltipContent h st (prop_data props) activeIndex None of
                                     Inl e \<Rightarrow> Inl e
                                   | Inr payload \<Rightarrow>
                                       (let coord =
                                              (case js_nth tts activeIndex of
                                                 Some t \<Rightarrow>
                                                   if prop_layout props = Horizontal
                                                   then xy (Some (tick_coordinate t)) validateChartY
                                                   else xy validateChartX (Some (tick_coordinate t))
                                               | None \<Rightarrow> originCoordinate)
                                        in Inr (setState st
                                                  (data\<lparr>p_activeLabel := Some label,
                                                         p_activeCoordinate := Some coord,
                                                         p_activePayload := Some payload,
                                                         p_activeTooltipIndex :=
                                                           Some activeIndex\<rparr>)))))))
            | None \<Rightarrow> Inr (setState st data)))"

text \<open>
  \<^verbatim>\<open>handleReceiveSyncEvent(cId, data, emitter)\<close>: a message of another sync id is ignored, and
  so is a message of the instance itself unless its sync method is a function.
\<close>

definition isFunction :: "'f sync_method \<Rightarrow> bool" where
  "isFunction m = (case m of SyncFunction f \<Rightarrow> True | _ \<Rightarrow> False)"

definition handleReceiveSyncEvent ::
  "('d, 'k, 'p, 'a) tip_helpers
     \<Rightarrow> (('d, 'c, tick list option \<Rightarrow> 'p partial_state \<Rightarrow> int) chart_props
           \<Rightarrow> int option \<times> int option \<Rightarrow> ('d, 'k, 'p, 'a) chart_state option
           \<Rightarrow> error + ('d, 'k, 'a) derived)
     \<Rightarrow> ('d, 'k, 'p, 'a, 'c) chart_instance \<Rightarrow> val option \<Rightarrow> 'p partial_state \<Rightarrow> nat
     \<Rightarrow> error + ('d, 'k, 'p, 'a) chart_state" where
  "handleReceiveSyncEvent h pipeline inst cId data emitter =
     (if prop_syncId (inst_props inst) = cId then
        (if emitter = eventEmitterSymbol inst \<and> \<not> isFunction (prop_syncMethod (inst_props inst))
         then Inr (inst_state inst)
         else applySyncEvent h pipeline inst data)
      else Inr (inst_state inst))"

subsection \<open>Example charts\<close>

text \<open>
  Instances of the helpers and concrete charts, on which the model is evaluated below. A
  datum is an object: the list of its fields. A data key names a field.
\<close>

type_synonym datum = "(string \<times> val) list"

definition fieldOf :: "string \<Rightarrow> datum option \<Rightarrow> val" where
  "fieldOf key entry =
     (case entry of
        None \<Rightarrow> Nil
      | Some d \<Rightarrow> (case map_of d key of None \<Rightarrow> Nil | Some v \<Rightarrow> v))"

fun numbersOf :: "val list \<Rightarrow> real list" where
  "numbersOf [] = []"
| "numbersOf (Num r # vs) = r # numbersOf vs"
| "numbersOf (v # vs) = numbersOf vs"

definition minMax :: "real list \<Rightarrow> val list" where
  "minMax rs = (case rs of [] \<Rightarrow> [] | r # rest \<Rightarrow> [Num (foldl min r rest), Num (foldl max r rest)])"

text \<open>
  The lower and the upper bound of a merged numeric domain: a number of the user stands, or
  is widened to the data unless overflow is allowed; any other entry gives the bound of the
  data.
\<close>

definition mergeBound ::
  "(real \<Rightarrow> real \<Rightarrow> real) \<Rightarrow> bool \<Rightarrow> val \<Rightarrow> val option \<Rightarrow> val" where
  "mergeBound pick allowOverflow specified ofData =
     (case specified of
        Num a \<Rightarrow>
          (if allowOverflow then Num a
           else (case ofData of Some (Num b) \<Rightarrow> Num (pick a b) | _ \<Rightarrow> Num a))
      | _ \<Rightarrow> (case ofData of Some v \<Rightarrow> v | None \<Rightarrow> Nil))"

text \<open>
  An instance of the helpers of the domain resolution, for charts without error bars: the
  categorical axis is the x axis of a horizontal layout (and the like for the other
  layouts); a domain of the user is adopted when it is a pair of numbers on a numeric axis
  that allows overflow; the extraction by a data key lists the values of the field, or
  their minimum and maximum for a numeric axis; a domain of categories given by the user
  replaces the computed one; the domain of a stack group is stored with the group. The
  merge of a domain of the user and the detection of reference elements are as the
  specification describes them: a bound that the user fixed stands, widened to the data
  unless the axis allows an overflow, and any other entry gives way to the bound of the
  data; the children of a chart are the positions of those reference lines of the axis at
  hand that are always shown, and the detection widens a pair of numbers to hold them.
\<close>

definition ex_dom_helpers :: "(datum, string, real list, val list) dom_helpers" where
  "ex_dom_helpers =
     \<lparr>isCategoricalAxis = (\<lambda>lay aType.
          (lay = Horizontal \<and> aType = XAxis) \<or> (lay = Vertical \<and> aType = YAxis)
          \<or> (lay = Centric \<and> aType = AngleAxis) \<or> (lay = Radial \<and> aType = RadiusAxis)),
      isDomainSpecifiedByUser = (\<lambda>dom allowOverflow kind.
          kind = NumberType \<and> allowOverflow
          \<and> (case dom of Some [Num a, Num b] \<Rightarrow> True | _ \<Rightarrow> False)),
      parseSpecifiedDomain = (\<lambda>specified ofData allowOverflow.
          (case specified of
             Some [lo, hi] \<Rightarrow>
               [mergeBound min allowOverflow lo
                  (case ofData of Some (a # rest) \<Rightarrow> Some a | _ \<Rightarrow> None),
                mergeBound max allowOverflow hi
                  (case ofData of Some [a, b] \<Rightarrow> Some b | _ \<Rightarrow> None)]
           | _ \<Rightarrow> (case ofData of Some d \<Rightarrow> d | None \<Rightarrow> []))),
      getDomainOfDataByKey = (\<lambda>data key kind.
          (case key of
             None \<Rightarrow> []
           | Some k \<Rightarrow>
               if kind = NumberType then minMax (numbersOf (map (fieldOf k) data))
               else map (fieldOf k) data)),
      hasDuplicate = (\<lambda>vs. \<not> distinct vs),
      parseDomainOfCategoryAxis = (\<lambda>specified calculated child.
          (case specified of Some (v # vs) \<Rightarrow> v # vs | _ \<Rightarrow> calculated)),
      parseErrorBarsOfAxis = (\<lambda>data items key aType lay. None),
      getDomainOfStackGroups = (\<lambda>groups startIndex endIndex. groups),
      getDomainOfItemsWithSameAxis = (\<lambda>data items kind lay filterNil. []),
      detectReferenceElementsDomain = (\<lambda>children dom axisId aType ticks.
          (case dom of
             [Num a, Num b] \<Rightarrow> [Num (foldl min a children), Num (foldl max b children)]
           | _ \<Rightarrow> dom))\<rparr>"

text \<open>
  The same instance with a helper that adopts a domain of the user when the axis allows
  overflow or is not numeric.
\<close>

definition ex_adopting_helpers :: "(datum, string, real list, val list) dom_helpers" where
  "ex_adopting_helpers =
     ex_dom_helpers\<lparr>isDomainSpecifiedByUser :=
       (\<lambda>dom allowOverflow kind. dom \<noteq> None \<and> (allowOverflow \<or> kind \<noteq> NumberType))\<rparr>"

text \<open>A chart of three records with a repeated name, and two stacked series.\<close>

definition ex_data :: "datum option list" where
  "ex_data =
     [Some [(''name'', Str ''a''), (''u'', Num 2), (''v'', Num 3)],
      Some [(''name'', Str ''b''), (''u'', Num 5), (''v'', Num 7)],
      Some [(''name'', Str ''a''), (''u'', Num 4), (''v'', Num 6)]]"

definition ex_series :: "string \<Rightarrow> datum option list option \<Rightarrow> datum item" where
  "ex_series key own =
     \<lparr>item_key = key, item_data = own, item_axisId = (\<lambda>aType. Some (NumId 0)),
      item_hide = False\<rparr>"

definition ex_items :: "datum item list" where
  "ex_items = [ex_series ''u'' None, ex_series ''v'' None]"

definition ex_props ::
  "(datum, real list, tick list option \<Rightarrow> (string \<times> datum) partial_state \<Rightarrow> int) chart_props" where
  "ex_props =
     \<lparr>prop_width = JNum 500, prop_height = JNum 300,
      prop_margin = Some \<lparr>margin_top = Some 5, margin_right = Some 5, margin_bottom = Some 5,
                          margin_left = Some 5\<rparr>,
      prop_brush = None, prop_legend = False,
      prop_layout = Horizontal, prop_stackOffset = Expand, prop_data = Defined ex_data,
      prop_children = [], prop_defaultShowTooltip = False, prop_syncId = Some (Str ''linked''),
      prop_syncMethod = SyncIndex\<rparr>"





definition ex_xAxis :: "string axis_props" where
  "ex_xAxis =
     \<lparr>ax_id = NumId 0, ax_hide = False, ax_orientation = Some ''bottom'',
      ax_type = CategoryType, ax_dataKey = Some ''name'',
      ax_allowDataOverflow = False, ax_allowDuplicatedCategory = True, ax_scale = ''auto'',
      ax_ticks = None, ax_includeHidden = False, ax_domain = None\<rparr>"

text \<open>
  A polar axis with the sector it spans, and an instance of the helpers of the tooltip: the
  active tick is the one nearest to the pointer's position; an entry is found by the value
  of its field; a tooltip item is the key of the series with its datum; a point is in the
  sector of an axis when its distance from the centre lies between the two radii; no entry
  is found in an array that is \<^verbatim>\<open>null\<close>. The
  examples do not convert polar coordinates: the instance gives no point for them, and no
  radius or angle for a point in a sector.
\<close>

record polar_axis = fmt_axis +
  pa_cx :: real
  pa_cy :: real
  pa_innerRadius :: real
  pa_outerRadius :: real

fun nearestTick :: "real \<Rightarrow> tick list \<Rightarrow> tick option" where
  "nearestTick pos [] = None"
| "nearestTick pos (t # ts) =
     (case nearestTick pos ts of
        None \<Rightarrow> Some t
      | Some u \<Rightarrow> if \<bar>tick_coordinate t - pos\<bar> \<le> \<bar>tick_coordinate u - pos\<bar> then Some t
                  else Some u)"

definition ex_tip_helpers :: "(datum, string, string \<times> datum, unit polar_axis_ext) tip_helpers" where
  "ex_tip_helpers =
     \<lparr>calculateActiveTickIndex = (\<lambda>pos ticks unsorted axis.
          (case (pos, ticks) of
             (Some p, Some ts) \<Rightarrow>
               (case nearestTick p ts of None \<Rightarrow> - 1 | Some t \<Rightarrow> tick_index t)
           | _ \<Rightarrow> - 1)),
      findEntryInArray = (\<lambda>entries key label.
          (case entries of
             None \<Rightarrow> None
           | Some ary \<Rightarrow>
               (case find (\<lambda>entry. entry \<noteq> None
                                     \<and> fieldOf key entry = (case label of None \<Rightarrow> Nil | Some v \<Rightarrow> v))
                       ary of
                  Some (Some d) \<Rightarrow> Some d
                | _ \<Rightarrow> None))),
      getTooltipItem = (\<lambda>child payload. (item_key child, payload)),
      polarToCartesian = (\<lambda>cx cy radius angle. (None, None)),
      inRangeOfSector = (\<lambda>point axis.
          (case (c_x point, c_y point, axis) of
             (Some x, Some y, Some a) \<Rightarrow>
               (let d2 = (x - pa_cx a) * (x - pa_cx a) + (y - pa_cy a) * (y - pa_cy a)
                in if d2 < pa_innerRadius a * pa_innerRadius a
                      \<or> d2 > pa_outerRadius a * pa_outerRadius a
                   then None
                   else Some (point\<lparr>c_cx := Some (pa_cx a), c_cy := Some (pa_cy a)\<rparr>))
           | _ \<Rightarrow> None)),
      getAnyElementOfObject = (\<lambda>axisMap. case axisMap of [] \<Rightarrow> None | a # rest \<Rightarrow> Some a)\<rparr>"

text \<open>
  The state of the chart above once the pipeline has run: a plot rectangle of 430 by 265 at
  (65, 5) and one tick for each record.
\<close>

definition ex_offset :: chart_offset where
  "ex_offset =
     \<lparr>o_top = 5, o_right = 5, o_bottom = 30, o_left = 65, o_width = Some 430,
      o_height = Some 265, o_brushBottom = 30\<rparr>"

definition ex_ticks :: "tick list" where
  "ex_ticks =
     [\<lparr>tick_value = Num 0, tick_coordinate = 100, tick_index = 0\<rparr>,
      \<lparr>tick_value = Num 1, tick_coordinate = 250, tick_index = 1\<rparr>,
      \<lparr>tick_value = Num 2, tick_coordinate = 400, tick_index = 2\<rparr>]"

definition ex_state :: "(datum, string, string \<times> datum, unit polar_axis_ext) chart_state" where
  "ex_state =
     \<lparr>chartX = 0, chartY = 0, dataStartIndex = Some 0, dataEndIndex = Some 2,
      activeTooltipIndex = - 1, isTooltipActive = False, activeLabel = None,
      activePayload = None, activeCoordinate = None, xValue = None, yValue = None,
      offset = Some ex_offset, tooltipTicks = Some ex_ticks,
      orderedTooltipTicks = Some ex_ticks,
      tooltipAxis = Some \<lparr>ta_dataKey = Some ''name'', ta_allowDuplicatedCategory = True\<rparr>,
      graphicalItems = Some ex_items, xAxisMap = Some [], yAxisMap = Some [],
      angleAxisMap = None, radiusAxisMap = None\<rparr>"

definition ex_chart ::
  "(datum, string, string \<times> datum, unit polar_axis_ext, real list) chart_instance" where
  "ex_chart =
     \<lparr>inst_props = ex_props, inst_state = ex_state, eventEmitterSymbol = 1,
      inst_container = Some \<lparr>ct_left = 8, ct_top = 8, ct_rectWidth = 500, ct_offsetWidth = 500\<rparr>,
      tooltipEventType = AxisEvent\<rparr>"

text \<open>
  A radial chart: a polar axis around (250, 150) with the radii 20 and 120.
\<close>

definition ex_polar_chart ::
  "(datum, string, string \<times> datum, unit polar_axis_ext, real list) chart_instance" where
  "ex_polar_chart =
     ex_chart\<lparr>inst_props := ex_props\<lparr>prop_layout := Centric\<rparr>,
              inst_state := ex_state
                \<lparr>angleAxisMap := Some [\<lparr>fa_invert = None, pa_cx = 250, pa_cy = 150,
                                        pa_innerRadius = 20, pa_outerRadius = 120\<rparr>],
                 radiusAxisMap := Some [\<lparr>fa_invert = None, pa_cx = 250, pa_cy = 150,
                                         pa_innerRadius = 20, pa_outerRadius = 120\<rparr>]\<rparr>\<rparr>"

text \<open>
  The pipeline of the examples derives nothing anew: it returns what the state has.
\<close>

definition ex_pipeline ::
  "(datum, real list, tick list option \<Rightarrow> (string \<times> datum) partial_state \<Rightarrow> int) chart_props
     \<Rightarrow> int option \<times> int option
     \<Rightarrow> (datum, string, string \<times> datum, unit polar_axis_ext) chart_state option
     \<Rightarrow> error + (datum, string, unit polar_axis_ext) derived" where
  "ex_pipeline props indices prevState =
     Inr \<lparr>dv_graphicalItems = ex_items, dv_offset = ex_offset, dv_tooltipTicks = Some ex_ticks,
          dv_orderedTooltipTicks = ex_ticks,
          dv_tooltipAxis = Some \<lparr>ta_dataKey = Some ''name'', ta_allowDuplicatedCategory = True\<rparr>,
          dv_xAxisMap = Some [], dv_yAxisMap = Some [], dv_angleAxisMap = None,
          dv_radiusAxisMap = None\<rparr>"

text \<open>
  Two series with data of their own, of three records and of one; no data of the chart.
\<close>

definition ex_own_a :: "datum option list" where
  "ex_own_a = [Some [(''x'', Num 1)], Some [(''x'', Num 2)], Some [(''x'', Num 3)]]"

definition ex_own_b :: "datum option list" where
  "ex_own_b = [Some [(''x'', Num 9)]]"

definition ex_own_state :: "(datum, string, string \<times> datum, unit polar_axis_ext) chart_state" where
  "ex_own_state =
     ex_state\<lparr>dataEndIndex := Some 0,
              tooltipAxis := Some \<lparr>ta_dataKey = None, ta_allowDuplicatedCategory = True\<rparr>,
              graphicalItems := Some [ex_series ''A'' (Some ex_own_a),
                                      ex_series ''B'' (Some ex_own_b)]\<rparr>"

text \<open>A message of a peer whose tooltip is at index 5, the pointer at (10, 2).\<close>

definition ex_message :: "(string \<times> datum) partial_state" where
  "ex_message =
     empty_partial\<lparr>p_chartX := Some 10, p_chartY := Some 2, p_activeTooltipIndex := Some 5,
                   p_isTooltipActive := Some True, p_activeLabel := Some (Some (Num 1))\<rparr>"


text \<open>
  The state of the chart after the message of the peer, by the index, label, payload and
  coordinate that the receiver sets; the payload of the second record; and the mouse
  information of a pointer at (270, 100) of the page.
\<close>

definition ex_synced ::
  "int \<Rightarrow> val option \<Rightarrow> (string \<times> datum) list option \<Rightarrow> coordinate
     \<Rightarrow> (datum, string, string \<times> datum, unit polar_axis_ext) chart_state" where
  "ex_synced i label payload coord =
     ex_state\<lparr>chartX := 10, chartY := 2, activeTooltipIndex := i, isTooltipActive := True,
              activeLabel := label, activePayload := payload, activeCoordinate := Some coord\<rparr>"

definition ex_payload_b :: "(string \<times> datum) list" where
  "ex_payload_b =
     [(''u'', [(''name'', Str ''b''), (''u'', Num 5), (''v'', Num 7)]),
      (''v'', [(''name'', Str ''b''), (''u'', Num 5), (''v'', Num 7)])]"


text \<open>
  The chart with a window that starts at the second record; a chart whose first series has
  data of its own and whose second has none, with a tooltip axis that reads the field \<open>x\<close>
  and forbids duplicated categories; and the payload of its first series alone and of both
  for the label 2.
\<close>

definition ex_windowed_state ::
  "(datum, string, string \<times> datum, unit polar_axis_ext) chart_state" where
  "ex_windowed_state = ex_state\<lparr>dataStartIndex := Some 1\<rparr>"

definition ex_mixed_state :: "(datum, string, string \<times> datum, unit polar_axis_ext) chart_state" where
  "ex_mixed_state =
     ex_state\<lparr>tooltipAxis := Some \<lparr>ta_dataKey = Some ''x'', ta_allowDuplicatedCategory = False\<rparr>,
              graphicalItems := Some [ex_series ''A'' (Some ex_own_a), ex_series ''B'' None]\<rparr>"



section \<open>Properties\<close>

subsection \<open>The range test of a scale\<close>

lemma isInRange_ends:
  "isInRange \<lparr>scale_range = rng\<rparr> v
     = (rng \<noteq> [] \<and> min (hd rng) (last rng) \<le> v \<and> v \<le> max (hd rng) (last rng))"
proof (cases rng)
  case Nil
  then show ?thesis by (simp add: isInRange_def)
next
  case (Cons a as)
  then show ?thesis
    by (cases "a \<le> last (a # as)") (auto simp add: isInRange_def Let_def min_def max_def)
qed

lemma isInRange_rev:
  "isInRange \<lparr>scale_range = rev rng\<rparr> v = isInRange \<lparr>scale_range = rng\<rparr> v"
proof (cases "rng = []")
  case True
  then show ?thesis by simp
next
  case False
  then have h: "hd (rev rng) = last rng" "last (rev rng) = hd rng" "rev rng \<noteq> []"
    by (simp_all add: hd_rev last_rev)
  show ?thesis
    unfolding isInRange_ends h using False by (auto simp add: min_def max_def)
qed

text \<open>
  C10. \<^verbatim>\<open>isInRange(v)\<close> reads the first and the last entry of the range of the scale, whatever
  the length of the range: for a range that is not empty it holds exactly when \<open>v\<close> lies
  between the smaller and the larger of the two, and for an empty range it is false. So for
  a scale whose range has the endpoints \<open>a\<close> and \<open>b\<close>, in either order, it holds exactly when
  \<open>min a b \<le> v \<le> max a b\<close>; swapping the endpoints, and reversing a range of any length,
  does not change the result.
\<close>

theorem isInRange_min_max:
  "isInRange sc v
     = (scale_range sc \<noteq> []
        \<and> min (hd (scale_range sc)) (last (scale_range sc)) \<le> v
        \<and> v \<le> max (hd (scale_range sc)) (last (scale_range sc)))
   \<and> (isInRange \<lparr>scale_range = [a, b]\<rparr> v \<longleftrightarrow> min a b \<le> v \<and> v \<le> max a b)
   \<and> isInRange \<lparr>scale_range = [b, a]\<rparr> v = isInRange \<lparr>scale_range = [a, b]\<rparr> v
   \<and> isInRange \<lparr>scale_range = rev rng\<rparr> v = isInRange \<lparr>scale_range = rng\<rparr> v"
proof -
  have gen: "isInRange sc v
     = (scale_range sc \<noteq> []
        \<and> min (hd (scale_range sc)) (last (scale_range sc)) \<le> v
        \<and> v \<le> max (hd (scale_range sc)) (last (scale_range sc)))"
    using isInRange_ends [of "scale_range sc" v] by (cases sc) simp
  have one: "\<And>a b. isInRange \<lparr>scale_range = [a, b]\<rparr> v \<longleftrightarrow> min a b \<le> v \<and> v \<le> max a b"
    by (simp add: isInRange_ends)
  have two: "isInRange \<lparr>scale_range = [b, a]\<rparr> v = isInRange \<lparr>scale_range = [a, b]\<rparr> v"
    unfolding one by (auto simp add: min_def max_def)
  show ?thesis using gen one two isInRange_rev by blast
qed

theorem isInRange_min_max_witness:
  "isInRange \<lparr>scale_range = [10, 2]\<rparr> 5 \<and> \<not> isInRange \<lparr>scale_range = [10, 2]\<rparr> 11
   \<and> isInRange \<lparr>scale_range = [2, 10]\<rparr> 5
   \<and> isInRange \<lparr>scale_range = [0, 100, 50]\<rparr> 25 \<and> \<not> isInRange \<lparr>scale_range = [0, 100, 50]\<rparr> 75
   \<and> isInRange \<lparr>scale_range = [5]\<rparr> 5 \<and> \<not> isInRange \<lparr>scale_range = []\<rparr> 5"
  using isInRange_min_max [of "\<lparr>scale_range = [10, 2]\<rparr>" 5 0 0 "[]"]
    isInRange_min_max [of "\<lparr>scale_range = [10, 2]\<rparr>" 11 0 0 "[]"]
    isInRange_min_max [of "\<lparr>scale_range = [2, 10]\<rparr>" 5 0 0 "[]"]
    isInRange_min_max [of "\<lparr>scale_range = [0, 100, 50]\<rparr>" 25 0 0 "[]"]
    isInRange_min_max [of "\<lparr>scale_range = [0, 100, 50]\<rparr>" 75 0 0 "[]"]
    isInRange_min_max [of "\<lparr>scale_range = [5]\<rparr>" 5 0 0 "[]"]
    isInRange_min_max [of "\<lparr>scale_range = []\<rparr>" 5 0 0 "[]"]
  by simp

subsection \<open>Degenerate sizes\<close>

text \<open>
  C5. \<^verbatim>\<open>updateStateOfAxisMapsOffsetAndStackGroups\<close> returns \<^verbatim>\<open>null\<close>, without running the
  pipeline and without an exception, when the width or the height of the chart is not a
  number or is at most zero; and it returns \<^verbatim>\<open>null\<close> in no other case.
\<close>

theorem degenerate_size_short_circuits:
  "(updateStateOfAxisMapsOffsetAndStackGroups pipeline props indices prevState = Inr None)
   = (\<not> isNumber (prop_width props) \<or> js_le_zero (prop_width props)
      \<or> \<not> isNumber (prop_height props) \<or> js_le_zero (prop_height props))"
  by (auto simp add: updateStateOfAxisMapsOffsetAndStackGroups_def validateWidthHeight_def
      split: sum.splits)

theorem degenerate_size_short_circuits_witness:
  "updateStateOfAxisMapsOffsetAndStackGroups (\<lambda>p i s. Inl InvariantViolation)
      \<lparr>prop_width = JNum 0, prop_height = JNum 300, prop_margin = None, prop_brush = None,
       prop_legend = False\<rparr> () None = (Inr None :: error + unit option)
   \<and> updateStateOfAxisMapsOffsetAndStackGroups (\<lambda>p i s. Inl InvariantViolation)
      \<lparr>prop_width = JNum 400, prop_height = JUndefined, prop_margin = None, prop_brush = None,
       prop_legend = False\<rparr> () None = (Inr None :: error + unit option)"
  by (simp add: degenerate_size_short_circuits)

subsection \<open>The clamped offset\<close>

text \<open>
  C6. For all margins, axis maps, brush, legend box and chart sizes, the width and the height
  of the offset that \<^verbatim>\<open>calculateOffset\<close> returns are the maximum of zero and the raw
  differences (the chart's width less the left and right offsets, its height less the top and
  bottom offsets), and so are never negative.
\<close>

theorem offset_clamped:
  "o_width (calculateOffset appendOffsetOfLegend brushDefaultHeight props items xm ym box)
     = map_option (max 0)
         (rawOffsetWidth props
           (calculateOffset appendOffsetOfLegend brushDefaultHeight props items xm ym box))
   \<and> o_height (calculateOffset appendOffsetOfLegend brushDefaultHeight props items xm ym box)
     = map_option (max 0)
         (rawOffsetHeight props
           (calculateOffset appendOffsetOfLegend brushDefaultHeight props items xm ym box))
   \<and> (\<forall>w. o_width (calculateOffset appendOffsetOfLegend brushDefaultHeight props items xm ym box) = Some w \<longrightarrow> 0 \<le> w)
   \<and> (\<forall>h. o_height (calculateOffset appendOffsetOfLegend brushDefaultHeight props items xm ym box) = Some h \<longrightarrow> 0 \<le> h)"
  by (auto simp add: calculateOffset_def rawOffsetWidth_def rawOffsetHeight_def Let_def
      option.map_comp comp_def max.commute)

theorem offset_clamped_witness:
  "o_width (calculateOffset (\<lambda>offs items props box. offs) 40
              \<lparr>prop_width = JNum 100, prop_height = JNum 300,
               prop_margin = Some \<lparr>margin_top = Some 5, margin_right = Some 60,
                                   margin_bottom = Some 5, margin_left = Some 60\<rparr>,
               prop_brush = None, prop_legend = False\<rparr>
              ([] :: unit list) [] [] (None :: unit option)) = Some 0
   \<and> rawOffsetWidth
        \<lparr>prop_width = JNum 100, prop_height = JNum 300,
         prop_margin = Some \<lparr>margin_top = Some 5, margin_right = Some 60,
                             margin_bottom = Some 5, margin_left = Some 60\<rparr>,
         prop_brush = None, prop_legend = False\<rparr>
        (calculateOffset (\<lambda>offs items props box. offs) 40
              \<lparr>prop_width = JNum 100, prop_height = JNum 300,
               prop_margin = Some \<lparr>margin_top = Some 5, margin_right = Some 60,
                                   margin_bottom = Some 5, margin_left = Some 60\<rparr>,
               prop_brush = None, prop_legend = False\<rparr>
              ([] :: unit list) [] [] (None :: unit option)) = Some (- 20)"
proof -
  have raw: "rawOffsetWidth
        \<lparr>prop_width = JNum 100, prop_height = JNum 300,
         prop_margin = Some \<lparr>margin_top = Some 5, margin_right = Some 60,
                             margin_bottom = Some 5, margin_left = Some 60\<rparr>,
         prop_brush = None, prop_legend = False\<rparr>
        (calculateOffset (\<lambda>offs items props box. offs) 40
              \<lparr>prop_width = JNum 100, prop_height = JNum 300,
               prop_margin = Some \<lparr>margin_top = Some 5, margin_right = Some 60,
                                   margin_bottom = Some 5, margin_left = Some 60\<rparr>,
               prop_brush = None, prop_legend = False\<rparr>
              ([] :: unit list) [] [] (None :: unit option)) = Some (- 20)"
    by (simp add: rawOffsetWidth_def calculateOffset_def Let_def or_default_def)
  show ?thesis
    using offset_clamped [of "\<lambda>offs items props box. offs" 40
              "\<lparr>prop_width = JNum 100, prop_height = JNum 300,
               prop_margin = Some \<lparr>margin_top = Some 5, margin_right = Some 60,
                                   margin_bottom = Some 5, margin_left = Some 60\<rparr>,
               prop_brush = None, prop_legend = False\<rparr>"
              "[] :: unit list" "[]" "[]" "None :: unit option"]
    unfolding raw by simp
qed

subsection \<open>The payload of the tooltip\<close>

lemma foldl_tooltipContent_step:
  "foldl (tooltipContent_step h st axis cd dd i l) acc its
     = acc @ List.map_filter
               (\<lambda>c. map_option (getTooltipItem h c) (tooltipDatum h st axis cd dd i l c)) its"
  by (induction its arbitrary: acc)
     (simp_all add: tooltipContent_step_def List.map_filter_simps split: option.splits)

lemmas ex_tip_defs = getTooltipContent_def getDisplayedData_def itemsData_step_def
  tooltipContent_step_def tooltipDatum_def seriesData_def positionalDatum_def entry_at_def
  keyedEntries_def js_nth_def js_slice_def Let_def ex_tip_helpers_def ex_state_def ex_items_def
  ex_series_def ex_data_def fieldOf_def

text \<open>
  C9, as the code has it. For an active index within the displayed data, the payload has
  one item for each plotted series, in their order, for which a datum is found. The data of
  a series is its own or, when it has none, the chart's, cut to the window of the state
  when the two window indices do not add up to zero and the window is at least as long as
  the active index. When the tooltip axis has a data key and forbids duplicated categories,
  the datum is found by \<open>findEntryInArray\<close> with the data key and the active label in the
  data of the series: in the displayed data when that data is \<^verbatim>\<open>undefined\<close>, and in
  \<^verbatim>\<open>null\<close> when it is \<^verbatim>\<open>null\<close>. Otherwise it is the entry at the active index of the data of
  the series and, when that data has no entry there, the entry at the active index of the
  displayed data. A series for which this lookup finds no datum is left out; there is no
  error and no empty item.
\<close>

theorem tooltip_payload_by_series:
  assumes items: "graphicalItems st = Some its" "its \<noteq> []"
    and axis: "tooltipAxis st = Some axis"
    and dd: "dd = getDisplayedData chartData (graphicalItems st) (dataStartIndex st) (dataEndIndex st)"
    and idx: "0 \<le> i" "i < int (length dd)"
  shows "getTooltipContent h st chartData i label
           = Inr (Some (List.map_filter
                   (\<lambda>c. map_option (getTooltipItem h c) (tooltipDatum h st axis chartData dd i label c))
                   its))
         \<and> (\<forall>c key. ta_dataKey axis = Some key \<and> \<not> ta_allowDuplicatedCategory axis \<longrightarrow>
               tooltipDatum h st axis chartData dd i label c
                 = findEntryInArray h
                     (case seriesData st chartData i c of
                        Undefined \<Rightarrow> Some dd | Null \<Rightarrow> None | Defined d \<Rightarrow> Some d)
                     key label)
         \<and> (\<forall>c. ta_dataKey axis = None \<or> ta_allowDuplicatedCategory axis \<longrightarrow>
               tooltipDatum h st axis chartData dd i label c
                 = (case (case seriesData st chartData i c of
                            Defined d \<Rightarrow> entry_at d i
                          | _ \<Rightarrow> None) of
                      Some e \<Rightarrow> Some e
                    | None \<Rightarrow> entry_at dd i))
         \<and> (\<forall>c. seriesData st chartData i c
                 = (case (case item_data c of Some own \<Rightarrow> Defined own | None \<Rightarrow> chartData) of
                      Defined d \<Rightarrow>
                        (case (dataStartIndex st, dataEndIndex st) of
                           (Some s, Some e) \<Rightarrow>
                             if s + e \<noteq> 0 \<and> i \<le> e - s then Defined (js_slice d s (e + 1))
                             else Defined d
                         | _ \<Rightarrow> Defined d)
                    | Null \<Rightarrow> Null
                    | Undefined \<Rightarrow> Undefined))"
proof -
  have content: "getTooltipContent h st chartData i label
           = Inr (Some (List.map_filter
                   (\<lambda>c. map_option (getTooltipItem h c) (tooltipDatum h st axis chartData dd i label c))
                   its))"
    using items axis idx unfolding getTooltipContent_def dd [symmetric] Let_def
    by (simp add: foldl_tooltipContent_step)
  have keyed: "\<forall>c key. ta_dataKey axis = Some key \<and> \<not> ta_allowDuplicatedCategory axis \<longrightarrow>
               tooltipDatum h st axis chartData dd i label c
                 = findEntryInArray h
                     (case seriesData st chartData i c of
                        Undefined \<Rightarrow> Some dd | Null \<Rightarrow> None | Defined d \<Rightarrow> Some d)
                     key label"
    by (simp add: tooltipDatum_def keyedEntries_def Let_def)
  have positional: "\<forall>c. ta_dataKey axis = None \<or> ta_allowDuplicatedCategory axis \<longrightarrow>
               tooltipDatum h st axis chartData dd i label c
                 = (case (case seriesData st chartData i c of
                            Defined d \<Rightarrow> entry_at d i
                          | _ \<Rightarrow> None) of
                      Some e \<Rightarrow> Some e
                    | None \<Rightarrow> entry_at dd i)"
    by (auto simp add: tooltipDatum_def positionalDatum_def Let_def split: option.splits)
  have series: "\<forall>c. seriesData st chartData i c
                 = (case (case item_data c of Some own \<Rightarrow> Defined own | None \<Rightarrow> chartData) of
                      Defined d \<Rightarrow>
                        (case (dataStartIndex st, dataEndIndex st) of
                           (Some s, Some e) \<Rightarrow>
                             if s + e \<noteq> 0 \<and> i \<le> e - s then Defined (js_slice d s (e + 1))
                             else Defined d
                         | _ \<Rightarrow> Defined d)
                    | Null \<Rightarrow> Null
                    | Undefined \<Rightarrow> Undefined)"
    by (simp add: seriesData_def Let_def split: option.splits nullable.splits)
  show ?thesis using content keyed positional series by blast
qed

text \<open>
  The chart of three records at the index 1, by position and by the key; the same chart
  with a window from the second record on, where the index 0 is the second record; and the
  chart whose second series has no data, where the keyed search of that series goes to the
  displayed data when the chart's data is \<^verbatim>\<open>undefined\<close> and finds nothing when it is \<^verbatim>\<open>null\<close>.
\<close>

theorem tooltip_payload_by_series_witness:
  "getTooltipContent ex_tip_helpers ex_state (Defined ex_data) 1 (Some (Num 1))
     = Inr (Some ex_payload_b)
   \<and> getTooltipContent ex_tip_helpers
       (ex_state\<lparr>tooltipAxis :=
                   Some \<lparr>ta_dataKey = Some ''name'', ta_allowDuplicatedCategory = False\<rparr>\<rparr>)
       (Defined ex_data) 1 (Some (Str ''b''))
     = Inr (Some ex_payload_b)
   \<and> getTooltipContent ex_tip_helpers ex_windowed_state (Defined ex_data) 0 (Some (Num 0))
     = Inr (Some ex_payload_b)
   \<and> getTooltipContent ex_tip_helpers ex_mixed_state Undefined 1 (Some (Num 2))
     = Inr (Some [(''A'', [(''x'', Num 2)]), (''B'', [(''x'', Num 2)])])
   \<and> getTooltipContent ex_tip_helpers ex_mixed_state Null 1 (Some (Num 2))
     = Inr (Some [(''A'', [(''x'', Num 2)])])"
proof -
  have dd: "ex_data = getDisplayedData (Defined ex_data) (graphicalItems ex_state)
                        (dataStartIndex ex_state) (dataEndIndex ex_state)"
    by (simp add: ex_tip_defs)
  have positional: "getTooltipContent ex_tip_helpers ex_state (Defined ex_data) 1 (Some (Num 1))
     = Inr (Some (List.map_filter
             (\<lambda>c. map_option (getTooltipItem ex_tip_helpers c)
                    (tooltipDatum ex_tip_helpers ex_state
                       \<lparr>ta_dataKey = Some ''name'', ta_allowDuplicatedCategory = True\<rparr>
                       (Defined ex_data) ex_data 1 (Some (Num 1)) c))
             ex_items))"
    by (rule tooltip_payload_by_series [where dd = ex_data, THEN conjunct1])
       (simp_all add: dd [symmetric], simp_all add: ex_state_def ex_items_def ex_data_def)
  have keyed: "getTooltipContent ex_tip_helpers
       (ex_state\<lparr>tooltipAxis :=
                   Some \<lparr>ta_dataKey = Some ''name'', ta_allowDuplicatedCategory = False\<rparr>\<rparr>)
       (Defined ex_data) 1 (Some (Str ''b''))
     = Inr (Some (List.map_filter
             (\<lambda>c. map_option (getTooltipItem ex_tip_helpers c)
                    (tooltipDatum ex_tip_helpers
                       (ex_state\<lparr>tooltipAxis :=
                          Some \<lparr>ta_dataKey = Some ''name'', ta_allowDuplicatedCategory = False\<rparr>\<rparr>)
                       \<lparr>ta_dataKey = Some ''name'', ta_allowDuplicatedCategory = False\<rparr>
                       (Defined ex_data) ex_data 1 (Some (Str ''b'')) c))
             ex_items))"
    by (rule tooltip_payload_by_series [where dd = ex_data, THEN conjunct1])
       (simp_all add: dd [symmetric], simp_all add: ex_state_def ex_items_def ex_data_def)
  have wd: "drop 1 ex_data = getDisplayedData (Defined ex_data) (graphicalItems ex_windowed_state)
                        (dataStartIndex ex_windowed_state) (dataEndIndex ex_windowed_state)"
    by (simp add: ex_tip_defs ex_windowed_state_def)
  have windowed: "getTooltipContent ex_tip_helpers ex_windowed_state (Defined ex_data) 0
                    (Some (Num 0))
     = Inr (Some (List.map_filter
             (\<lambda>c. map_option (getTooltipItem ex_tip_helpers c)
                    (tooltipDatum ex_tip_helpers ex_windowed_state
                       \<lparr>ta_dataKey = Some ''name'', ta_allowDuplicatedCategory = True\<rparr>
                       (Defined ex_data) (drop 1 ex_data) 0 (Some (Num 0)) c))
             ex_items))"
    by (rule tooltip_payload_by_series [where dd = "drop 1 ex_data", THEN conjunct1])
       (simp_all add: wd [symmetric],
        simp_all add: ex_windowed_state_def ex_state_def ex_items_def ex_data_def)
  have md: "ex_own_a = getDisplayedData chartData (graphicalItems ex_mixed_state)
                        (dataStartIndex ex_mixed_state) (dataEndIndex ex_mixed_state)"
    for chartData
    by (simp add: ex_tip_defs ex_mixed_state_def ex_own_a_def)
  have mixed: "getTooltipContent ex_tip_helpers ex_mixed_state chartData 1 (Some (Num 2))
     = Inr (Some (List.map_filter
             (\<lambda>c. map_option (getTooltipItem ex_tip_helpers c)
                    (tooltipDatum ex_tip_helpers ex_mixed_state
                       \<lparr>ta_dataKey = Some ''x'', ta_allowDuplicatedCategory = False\<rparr>
                       chartData ex_own_a 1 (Some (Num 2)) c))
             [ex_series ''A'' (Some ex_own_a), ex_series ''B'' None]))"
    for chartData
    by (rule tooltip_payload_by_series [where dd = ex_own_a, THEN conjunct1])
       (simp_all add: md [symmetric],
        simp_all add: ex_mixed_state_def ex_state_def ex_own_a_def)
  show ?thesis
    unfolding positional keyed windowed mixed
    by (simp add: List.map_filter_simps ex_payload_b_def ex_tip_defs ex_windowed_state_def
        ex_mixed_state_def ex_own_a_def)
qed

text \<open>
  C9 as it is stated fails where the lookup is by position. Of two series with data of
  their own, the second has one record only: its data has no entry at the index 2, and yet
  the series is in the payload, with the entry that the displayed data (the data of both
  series, concatenated) has at that index.
\<close>

theorem tooltip_payload_by_series_counterexample:
  "seriesData ex_own_state Undefined 2 (ex_series ''B'' (Some ex_own_b))
     = Defined [Some [(''x'', Num 9)]]
   \<and> entry_at [Some [(''x'', Num 9)]] 2 = None
   \<and> getTooltipContent ex_tip_helpers ex_own_state Undefined 2 None
       = Inr (Some [(''A'', [(''x'', Num 3)]), (''B'', [(''x'', Num 3)])])"
  by (simp add: ex_tip_defs ex_own_state_def ex_own_a_def ex_own_b_def)

subsection \<open>The domains of the axes\<close>

lemma map_of_foldl_axis_step:
  "map_of (foldl (getAxisMapByAxes_step h props items aType sg s e) acc axes) k
     = (case map_of acc k of
          Some en \<Rightarrow> Some en
        | None \<Rightarrow>
            if k \<in> set inheritedKeys then None
            else map_option (getAxisMapByAxes_entry h props items aType sg s e)
                   (find (\<lambda>c. propertyKey (ax_id c) = k) axes))"
proof (induction axes arbitrary: acc)
  case Nil
  then show ?case by (simp split: option.splits)
next
  case (Cons c cs)
  show ?case
    unfolding foldl_Cons Cons.IH
    by (auto simp add: getAxisMapByAxes_step_def truthyProperty_def map_of_append
        split: option.splits)
qed

lemma map_of_getAxisMapByAxes:
  "map_of (getAxisMapByAxes h props axes items aType sg s e) k
     = (if k \<in> set inheritedKeys then None
        else map_option (getAxisMapByAxes_entry h props items aType sg s e)
               (find (\<lambda>c. propertyKey (ax_id c) = k) axes))"
  by (simp add: getAxisMapByAxes_def map_of_foldl_axis_step)



lemma getAxisMap_declared:
  assumes "find P axes = Some child"
  shows "getAxisMap h props defaults axes items aType sg s e
           = getAxisMapByAxes h props axes items aType sg s e"
  using assms by (cases axes) (simp_all add: getAxisMap_def)

lemma domain_entry:
  "domain (getAxisMapByAxes_entry h props items aType sg s e child)
     = fst (axisDomains h props items aType sg s e child)"
  "duplicateDomain (getAxisMapByAxes_entry h props items aType sg s e child)
     = fst (snd (axisDomains h props items aType sg s e child))"
  by (simp_all add: getAxisMapByAxes_entry_def axis_props.extend_def split: prod.splits)



lemmas ex_defs = getAxisMap_def getAxisMapByAxes_def getAxisMapByAxes_step_def
      getAxisMapByAxes_entry_def getAxisMapByItems_def getAxisMapByItems_step_def
      itemsAxisDomain_def orientationOf_def truthyProperty_def inheritedKeys_def
      propertyKey_def propertyKeyOf_def decimal.simps digitChar_def
      axisDomains_def Let_def ex_dom_helpers_def ex_props_def ex_items_def
      ex_series_def ex_data_def getDisplayedData_def itemsData_step_def itemsOfAxis_def
      shownItemsOfAxis_def js_slice_def getDefaultDomainByAxisType_def fieldOf_def minMax_def
      mergeBound_def axis_props.extend_def range0_def dedupe_step_def isNil_def




lemma foldl_dedupe_step:
  "foldl dedupe_step acc xs = acc @ filter (\<lambda>x. x \<notin> set acc) (firstOccurrences xs)"
proof (induction xs arbitrary: acc)
  case Nil
  then show ?case by simp
next
  case (Cons x xs)
  show ?case
  proof (cases "x \<in> set acc")
    case True
    have step: "dedupe_step acc x = acc"
      using True by (simp add: dedupe_step_def)
    have "filter (\<lambda>y. y \<notin> set acc) (filter (\<lambda>y. y \<noteq> x) (firstOccurrences xs))
            = filter (\<lambda>y. y \<notin> set acc) (firstOccurrences xs)"
      unfolding filter_filter using True by (intro filter_cong) auto
    then have "filter (\<lambda>y. y \<notin> set acc) (firstOccurrences (x # xs))
            = filter (\<lambda>y. y \<notin> set acc) (firstOccurrences xs)"
      using True by simp
    then show ?thesis
      by (simp only: foldl_Cons step Cons.IH)
  next
    case False
    have step: "dedupe_step acc x = acc @ [x]"
      using False by (simp add: dedupe_step_def)
    have "filter (\<lambda>y. y \<notin> set (acc @ [x])) (firstOccurrences xs)
            = filter (\<lambda>y. y \<notin> set acc) (filter (\<lambda>y. y \<noteq> x) (firstOccurrences xs))"
      unfolding filter_filter by (intro filter_cong) auto
    then have "(acc @ [x]) @ filter (\<lambda>y. y \<notin> set (acc @ [x])) (firstOccurrences xs)
            = acc @ filter (\<lambda>y. y \<notin> set acc) (firstOccurrences (x # xs))"
      using False by simp
    then show ?thesis
      by (simp only: foldl_Cons step Cons.IH)
  qed
qed

lemma dedupe_firstOccurrences: "foldl dedupe_step [] xs = firstOccurrences xs"
  by (simp add: foldl_dedupe_step)

lemma set_firstOccurrences: "set (firstOccurrences xs) = set xs"
  by (induction xs) auto

lemma distinct_firstOccurrences: "distinct (firstOccurrences xs)"
  by (induction xs) (auto simp add: set_firstOccurrences)

lemma axisDomains_category:
  assumes kind: "ax_type child = CategoryType"
    and cat: "isCategoricalAxis h (prop_layout props) aType"
    and key: "ax_dataKey child = Some dk"
    and notAdopted:
      "\<not> isDomainSpecifiedByUser h (ax_domain child) (ax_allowDataOverflow child) CategoryType"
  shows "ax_allowDuplicatedCategory child \<and>
         hasDuplicate h (getDomainOfDataByKey h
            (getDisplayedData (prop_data props) (Some (itemsOfAxis aType (ax_id child) items)) s e)
            (Some dk) CategoryType) \<Longrightarrow>
           fst (axisDomains h props items aType sg s e child)
             = (case ax_domain child of
                  None \<Rightarrow>
                    range0 (length (getDisplayedData (prop_data props)
                                      (Some (itemsOfAxis aType (ax_id child) items)) s e))
                | Some ud \<Rightarrow>
                    if set (range0 (length (getDisplayedData (prop_data props)
                                      (Some (itemsOfAxis aType (ax_id child) items)) s e)))
                         \<subseteq> set ud
                    then ud
                    else range0 (length (getDisplayedData (prop_data props)
                                      (Some (itemsOfAxis aType (ax_id child) items)) s e)))
           \<and> fst (snd (axisDomains h props items aType sg s e child))
             = Some (getDomainOfDataByKey h
                 (getDisplayedData (prop_data props) (Some (itemsOfAxis aType (ax_id child) items)) s e)
                 (Some dk) CategoryType)"
    and "\<not> ax_allowDuplicatedCategory child \<Longrightarrow>
           fst (axisDomains h props items aType sg s e child)
             = (case ax_domain child of
                  None \<Rightarrow>
                    firstOccurrences (parseDomainOfCategoryAxis h (ax_domain child)
                      (getDomainOfDataByKey h
                        (getDisplayedData (prop_data props)
                           (Some (itemsOfAxis aType (ax_id child) items)) s e)
                        (Some dk) CategoryType) child)
                | Some ud \<Rightarrow>
                    if set (firstOccurrences (parseDomainOfCategoryAxis h (ax_domain child)
                              (getDomainOfDataByKey h
                                (getDisplayedData (prop_data props)
                                   (Some (itemsOfAxis aType (ax_id child) items)) s e)
                                (Some dk) CategoryType) child))
                         \<subseteq> set ud
                    then ud
                    else firstOccurrences (parseDomainOfCategoryAxis h (ax_domain child)
                           (getDomainOfDataByKey h
                             (getDisplayedData (prop_data props)
                                (Some (itemsOfAxis aType (ax_id child) items)) s e)
                             (Some dk) CategoryType) child))"
  using kind cat key notAdopted
  by (simp_all add: axisDomains_def Let_def getDefaultDomainByAxisType_def
      dedupe_firstOccurrences list_all_iff subset_eq split: option.splits)

lemma ex_displayed:
  "getDisplayedData (prop_data ex_props) (Some (itemsOfAxis XAxis (NumId 0) ex_items))
     (Some 0) (Some 2) = ex_data"
  by (simp add: getDisplayedData_def ex_props_def itemsOfAxis_def ex_items_def ex_series_def
      itemsData_step_def js_slice_def ex_data_def)

lemma ex_extracted:
  "getDomainOfDataByKey ex_dom_helpers ex_data (Some ''name'') CategoryType
     = [Str ''a'', Str ''b'', Str ''a'']"
  by (simp add: ex_dom_helpers_def ex_data_def fieldOf_def)

text \<open>
  C2, as the code has it. Take the first declared axis of its key (a key that is not
  inherited from \<^verbatim>\<open>Object.prototype\<close>), of the category type, that is the categorical axis of
  the layout and reads a data key, and for which no domain of the user is adopted up front.
  The ids of the axes are strings or safe integers, for which the model has the keys right.

  When it allows duplicated categories and the extraction over the \<open>N\<close> displayed records
  has a duplicate, the extracted values are kept as the duplicate domain and the resolved
  domain is the index range \<open>[0, N)\<close>, unless the axis declares a domain of its own that
  holds every index of the range: then that domain is the resolved domain.

  When it forbids duplicated categories, the resolved domain is the list of the first
  occurrences of the values that \<open>parseDomainOfCategoryAxis\<close> returns, again unless the axis
  declares a domain that holds all of them, which then is the resolved domain. For an axis
  without a domain of its own, when that function returns the extracted values unchanged,
  the resolved domain is the list of the first occurrences of the extracted values: it has
  no duplicate and the same values.
\<close>

theorem category_domain_resolved:
  assumes first: "find (\<lambda>c. propertyKey (ax_id c) = key) axes = Some child"
    and own: "key \<notin> set inheritedKeys"
    and ids: "list_all (\<lambda>c. safeInteger (ax_id c)) axes"
    and kind: "ax_type child = CategoryType"
    and categorical: "isCategoricalAxis h (prop_layout props) aType"
    and dataKey: "ax_dataKey child = Some dk"
    and notAdopted:
      "\<not> isDomainSpecifiedByUser h (ax_domain child) (ax_allowDataOverflow child) CategoryType"
    and dd: "dd = getDisplayedData (prop_data props) (Some (itemsOfAxis aType (ax_id child) items))
                    s e"
    and extracted: "extracted = getDomainOfDataByKey h dd (Some dk) CategoryType"
    and entry: "entry = map_of (getAxisMap h props defaults axes items aType sg s e) key"
  shows "(ax_allowDuplicatedCategory child \<and> hasDuplicate h extracted \<longrightarrow>
            map_option domain entry
              = Some (case ax_domain child of
                        None \<Rightarrow> range0 (length dd)
                      | Some ud \<Rightarrow>
                          if set (range0 (length dd)) \<subseteq> set ud then ud else range0 (length dd))
            \<and> map_option duplicateDomain entry = Some (Some extracted))
         \<and> (\<not> ax_allowDuplicatedCategory child \<longrightarrow>
            map_option domain entry
              = Some (case ax_domain child of
                        None \<Rightarrow>
                          firstOccurrences
                            (parseDomainOfCategoryAxis h (ax_domain child) extracted child)
                      | Some ud \<Rightarrow>
                          if set (firstOccurrences
                                    (parseDomainOfCategoryAxis h (ax_domain child) extracted child))
                               \<subseteq> set ud
                          then ud
                          else firstOccurrences
                                 (parseDomainOfCategoryAxis h (ax_domain child) extracted child))
            \<and> (ax_domain child = None
                 \<and> parseDomainOfCategoryAxis h None extracted child = extracted \<longrightarrow>
                 map_option domain entry = Some (firstOccurrences extracted)
                 \<and> distinct (firstOccurrences extracted)
                 \<and> set (firstOccurrences extracted) = set extracted))"
proof -
  have e: "entry = Some (getAxisMapByAxes_entry h props items aType sg s e child)"
    unfolding entry
    by (simp add: getAxisMap_declared [OF first] map_of_getAxisMapByAxes own first)
  have dom: "map_option domain entry = Some (fst (axisDomains h props items aType sg s e child))"
    and dup: "map_option duplicateDomain entry
                = Some (fst (snd (axisDomains h props items aType sg s e child)))"
    unfolding e by (simp_all add: domain_entry)
  note cat = axisDomains_category [OF kind categorical dataKey notAdopted,
      where items = items and s = s and e = e and sg = sg, folded dd, folded extracted]
  show ?thesis
  proof (intro conjI impI)
    assume a: "ax_allowDuplicatedCategory child \<and> hasDuplicate h extracted"
    show "map_option domain entry
              = Some (case ax_domain child of
                        None \<Rightarrow> range0 (length dd)
                      | Some ud \<Rightarrow>
                          if set (range0 (length dd)) \<subseteq> set ud then ud else range0 (length dd))"
      unfolding dom using cat(1) [OF a] by (simp only:)
    show "map_option duplicateDomain entry = Some (Some extracted)"
      unfolding dup using cat(1) [OF a] by (simp only:)
  next
    assume n: "\<not> ax_allowDuplicatedCategory child"
    show u: "map_option domain entry
              = Some (case ax_domain child of
                        None \<Rightarrow>
                          firstOccurrences
                            (parseDomainOfCategoryAxis h (ax_domain child) extracted child)
                      | Some ud \<Rightarrow>
                          if set (firstOccurrences
                                    (parseDomainOfCategoryAxis h (ax_domain child) extracted child))
                               \<subseteq> set ud
                          then ud
                          else firstOccurrences
                                 (parseDomainOfCategoryAxis h (ax_domain child) extracted child))"
      unfolding dom using cat(2) [OF n] by (simp only:)
    assume p: "ax_domain child = None
                 \<and> parseDomainOfCategoryAxis h None extracted child = extracted"
    show "map_option domain entry = Some (firstOccurrences extracted)"
      using u p by simp
    show "distinct (firstOccurrences extracted)"
      by (rule distinct_firstOccurrences)
    show "set (firstOccurrences extracted) = set extracted"
      by (rule set_firstOccurrences)
  qed
qed

text \<open>
  The example of the specification: the names \<open>a\<close>, \<open>b\<close>, \<open>a\<close> give the domain \<open>[0, 1, 2]\<close>
  with the duplicate domain \<open>[a, b, a]\<close> when duplicates are allowed, and \<open>[a, b]\<close> when
  they are not. An axis that declares the domain \<open>[2, 1, 0, 5]\<close> keeps that domain, which
  holds the three indices.
\<close>

theorem category_domain_resolved_witness:
  "map_option domain
     (map_of (getAxisMap ex_dom_helpers ex_props ex_xAxis [ex_xAxis] ex_items XAxis None
                (Some 0) (Some 2)) ''0'') = Some [Num 0, Num 1, Num 2]
   \<and> map_option duplicateDomain
     (map_of (getAxisMap ex_dom_helpers ex_props ex_xAxis [ex_xAxis] ex_items XAxis None
                (Some 0) (Some 2)) ''0'') = Some (Some [Str ''a'', Str ''b'', Str ''a''])
   \<and> map_option domain
     (map_of (getAxisMap ex_dom_helpers ex_props ex_xAxis
                [ex_xAxis\<lparr>ax_allowDuplicatedCategory := False\<rparr>] ex_items XAxis None
                (Some 0) (Some 2)) ''0'') = Some [Str ''a'', Str ''b'']
   \<and> map_option domain
     (map_of (getAxisMap ex_dom_helpers ex_props ex_xAxis
                [ex_xAxis\<lparr>ax_domain := Some [Num 2, Num 1, Num 0, Num 5]\<rparr>] ex_items XAxis None
                (Some 0) (Some 2)) ''0'') = Some [Num 2, Num 1, Num 0, Num 5]"
proof -
  define X where "X b ud = ex_xAxis\<lparr>ax_allowDuplicatedCategory := b, ax_domain := ud\<rparr>"
    for b :: bool and ud :: "val list option"
  have id: "ax_id (X b ud) = NumId 0" for b ud
    by (simp add: X_def ex_xAxis_def)
  have first: "find (\<lambda>c. propertyKey (ax_id c) = ''0'') [X b ud] = Some (X b ud)" for b ud
    by (simp add: id propertyKey_def decimal.simps digitChar_def)
  have own: "''0'' \<notin> set inheritedKeys"
    by (simp add: inheritedKeys_def)
  have ids: "list_all (\<lambda>c. safeInteger (ax_id c)) [X b ud]" for b ud
    by (simp add: id safeInteger_def)
  have kind: "ax_type (X b ud) = CategoryType" for b ud
    by (simp add: X_def ex_xAxis_def)
  have categorical: "isCategoricalAxis ex_dom_helpers (prop_layout ex_props) XAxis"
    by (simp add: ex_dom_helpers_def ex_props_def)
  have dataKey: "ax_dataKey (X b ud) = Some ''name''" for b ud
    by (simp add: X_def ex_xAxis_def)
  have notAdopted: "\<not> isDomainSpecifiedByUser ex_dom_helpers (ax_domain (X b ud))
                        (ax_allowDataOverflow (X b ud)) CategoryType" for b ud
    by (simp add: ex_dom_helpers_def)
  have dd: "ex_data = getDisplayedData (prop_data ex_props)
              (Some (itemsOfAxis XAxis (ax_id (X b ud)) ex_items)) (Some 0) (Some 2)" for b ud
    unfolding id by (rule ex_displayed [symmetric])
  note T = category_domain_resolved [OF first own ids kind categorical dataKey notAdopted dd
      ex_extracted [symmetric] refl, where defaults = ex_xAxis and sg = None]
  have len: "range0 (length ex_data) = [Num 0, Num 1, Num 2]"
    by (simp add: ex_data_def range0_def)
  have x: "X True None = ex_xAxis" "X False None = ex_xAxis\<lparr>ax_allowDuplicatedCategory := False\<rparr>"
    "X True (Some [Num 2, Num 1, Num 0, Num 5])
       = ex_xAxis\<lparr>ax_domain := Some [Num 2, Num 1, Num 0, Num 5]\<rparr>"
    by (simp_all add: X_def ex_xAxis_def)
  have fields: "ax_allowDuplicatedCategory (X b ud) = b" "ax_domain (X b ud) = ud" for b ud
    by (simp_all add: X_def)
  have dup: "hasDuplicate ex_dom_helpers [Str ''a'', Str ''b'', Str ''a'']"
    and parse: "parseDomainOfCategoryAxis ex_dom_helpers None [Str ''a'', Str ''b'', Str ''a''] c
                  = [Str ''a'', Str ''b'', Str ''a'']" for c
    by (simp_all add: ex_dom_helpers_def)
  have allowed: "map_option domain
     (map_of (getAxisMap ex_dom_helpers ex_props ex_xAxis [X True None] ex_items XAxis None
                (Some 0) (Some 2)) ''0'') = Some [Num 0, Num 1, Num 2]
   \<and> map_option duplicateDomain
     (map_of (getAxisMap ex_dom_helpers ex_props ex_xAxis [X True None] ex_items XAxis None
                (Some 0) (Some 2)) ''0'') = Some (Some [Str ''a'', Str ''b'', Str ''a''])"
    using T [of True None, THEN conjunct1] dup unfolding fields len by simp
  have forbidden: "map_option domain
     (map_of (getAxisMap ex_dom_helpers ex_props ex_xAxis [X False None] ex_items XAxis None
                (Some 0) (Some 2)) ''0'') = Some [Str ''a'', Str ''b'']"
    using T [of False None, THEN conjunct2] unfolding fields parse by simp
  have declared: "map_option domain
     (map_of (getAxisMap ex_dom_helpers ex_props ex_xAxis
                [X True (Some [Num 2, Num 1, Num 0, Num 5])] ex_items XAxis None
                (Some 0) (Some 2)) ''0'') = Some [Num 2, Num 1, Num 0, Num 5]"
    using T [of True "Some [Num 2, Num 1, Num 0, Num 5]", THEN conjunct1] dup
    unfolding fields len by simp
  show ?thesis
    using allowed forbidden declared unfolding x by (simp only: simp_thms)
qed

text \<open>
  C2 as it is stated fails for an axis with a domain of its own that holds every index: the
  last step of the resolution replaces the index range by that domain. It does so whether
  the helper that adopts a domain up front never adopts one for a category axis, or adopts
  any domain of an axis that is not numeric.
\<close>

theorem category_domain_resolved_counterexample:
  "map_option domain
     (map_of (getAxisMap ex_dom_helpers ex_props ex_xAxis
                [ex_xAxis\<lparr>ax_domain := Some [Num 2, Num 1, Num 0, Num 5]\<rparr>] ex_items XAxis None
                (Some 0) (Some 2)) ''0'')
     = Some [Num 2, Num 1, Num 0, Num 5]
   \<and> [Num 2, Num 1, Num 0, Num 5] \<noteq> [Num 0, Num 1, Num 2]
   \<and> map_option domain
     (map_of (getAxisMap ex_adopting_helpers ex_props ex_xAxis
                [ex_xAxis\<lparr>ax_domain := Some [Num 2, Num 1, Num 0, Num 5]\<rparr>] ex_items XAxis None
                (Some 0) (Some 2)) ''0'')
     = Some [Num 2, Num 1, Num 0, Num 5]
   \<and> ax_type ex_xAxis = CategoryType \<and> ax_allowDuplicatedCategory ex_xAxis
   \<and> isCategoricalAxis ex_dom_helpers (prop_layout ex_props) XAxis
   \<and> hasDuplicate ex_dom_helpers [Str ''a'', Str ''b'', Str ''a'']
   \<and> getDomainOfDataByKey ex_dom_helpers
        (getDisplayedData (prop_data ex_props) (Some (itemsOfAxis XAxis (NumId 0) ex_items))
           (Some 0) (Some 2)) (Some ''name'') CategoryType = [Str ''a'', Str ''b'', Str ''a'']"
  by (simp add: ex_defs ex_xAxis_def ex_adopting_helpers_def)

subsection \<open>The state after an event\<close>


lemma setState_inactive:
  "setState st (empty_partial\<lparr>p_isTooltipActive := Some False\<rparr>) = st\<lparr>isTooltipActive := False\<rparr>"
  by (simp add: setState_def empty_partial_def)









lemmas ex_sync_defs = applySyncEvent_def handleReceiveSyncEvent_def isFunction_def
  ex_chart_def ex_props_def ex_message_def empty_partial_def ex_offset_def
  ex_ticks_def min_plus_def xy_def originCoordinate_def setState_def ex_synced_def
  ex_payload_b_def ex_tip_defs



lemmas ex_mouse_defs = getMouseInfo_def inRange_def getTooltipData_def calculateTooltipPos_def
  getActiveCoordinate_def triggeredAfterMouseMove_def pointerScale_def scaled_def js_round_def
  le_plus_def



subsection \<open>A pointer outside the plot\<close>

text \<open>
  C4, as the code has it. The test is made on the chart coordinates of the pointer: its
  offset from the container, rounded to the nearest integer by \<^verbatim>\<open>Math.round\<close> and divided by
  the scale of the container. When the chart is rendered and these coordinates lie outside
  the plot rectangle (cartesian layouts) or outside the sector of the angle axis (polar
  layouts), \<^verbatim>\<open>getMouseInfo\<close> returns \<^verbatim>\<open>null\<close> and \<^verbatim>\<open>triggeredAfterMouseMove\<close> sets
  \<^verbatim>\<open>isTooltipActive\<close> to false and changes nothing else: the result is a state, not an
  error.
\<close>

theorem pointer_outside_inactive:
  assumes cont: "inst_container inst = Some c"
    and sx: "sx = scaled (js_round (pageX e - ct_left c)) (pointerScale c)"
    and sy: "sy = scaled (js_round (pageY e - ct_top c)) (pointerScale c)"
    and outside:
      "((prop_layout (inst_props inst) = Horizontal \<or> prop_layout (inst_props inst) = Vertical)
          \<and> (\<exists>off w hgt. offset (inst_state inst) = Some off
                \<and> o_width off = Some w \<and> o_height off = Some hgt
                \<and> (sx < o_left off \<or> o_left off + w < sx \<or> sy < o_top off \<or> o_top off + hgt < sy)))
       \<or> ((prop_layout (inst_props inst) = Centric \<or> prop_layout (inst_props inst) = Radial)
          \<and> (\<exists>am rm. angleAxisMap (inst_state inst) = Some am
                \<and> radiusAxisMap (inst_state inst) = Some rm
                \<and> inRangeOfSector h (xy (Some sx) (Some sy)) (getAnyElementOfObject h am) = None))"
  shows "getMouseInfo h inst e = Inr None
     \<and> triggeredAfterMouseMove h inst e
         = Inr ((inst_state inst)\<lparr>isTooltipActive := False\<rparr>,
                map_option (\<lambda>sid. (sid, empty_partial\<lparr>p_isTooltipActive := Some False\<rparr>,
                                    eventEmitterSymbol inst))
                  (prop_syncId (inst_props inst)))"
proof -
  have range: "inRange h inst (js_round (pageX e - ct_left c)) (js_round (pageY e - ct_top c))
                 (pointerScale c) = Inr None"
    using outside unfolding inRange_def Let_def sx [symmetric] sy [symmetric]
    by (auto simp add: le_plus_def)
  have mouse: "getMouseInfo h inst e = Inr None"
    by (simp add: getMouseInfo_def cont Let_def range)
  show ?thesis
    by (simp add: mouse triggeredAfterMouseMove_def Let_def setState_inactive)
qed

theorem pointer_outside_inactive_witness:
  "getMouseInfo ex_tip_helpers ex_chart \<lparr>pageX = 20, pageY = 100\<rparr> = Inr None
   \<and> triggeredAfterMouseMove ex_tip_helpers ex_chart \<lparr>pageX = 20, pageY = 100\<rparr>
       = Inr (ex_state\<lparr>isTooltipActive := False\<rparr>,
              Some (Str ''linked'', empty_partial\<lparr>p_isTooltipActive := Some False\<rparr>, 1))
   \<and> getMouseInfo ex_tip_helpers ex_polar_chart \<lparr>pageX = 20, pageY = 100\<rparr> = Inr None"
proof -
  have cont: "inst_container ex_chart
                = Some \<lparr>ct_left = 8, ct_top = 8, ct_rectWidth = 500, ct_offsetWidth = 500\<rparr>"
    "inst_container ex_polar_chart
                = Some \<lparr>ct_left = 8, ct_top = 8, ct_rectWidth = 500, ct_offsetWidth = 500\<rparr>"
    by (simp_all add: ex_chart_def ex_polar_chart_def)
  have sx: "(12 :: real) = scaled (js_round (pageX \<lparr>pageX = 20, pageY = 100\<rparr>
                - ct_left \<lparr>ct_left = 8, ct_top = 8, ct_rectWidth = 500, ct_offsetWidth = 500\<rparr>))
              (pointerScale \<lparr>ct_left = 8, ct_top = 8, ct_rectWidth = 500, ct_offsetWidth = 500\<rparr>)"
    and sy: "(92 :: real) = scaled (js_round (pageY \<lparr>pageX = 20, pageY = 100\<rparr>
                - ct_top \<lparr>ct_left = 8, ct_top = 8, ct_rectWidth = 500, ct_offsetWidth = 500\<rparr>))
              (pointerScale \<lparr>ct_left = 8, ct_top = 8, ct_rectWidth = 500, ct_offsetWidth = 500\<rparr>)"
    by (simp_all add: scaled_def js_round_def pointerScale_def)
  have cartesian:
    "((prop_layout (inst_props ex_chart) = Horizontal \<or> prop_layout (inst_props ex_chart) = Vertical)
          \<and> (\<exists>off w hgt. offset (inst_state ex_chart) = Some off
                \<and> o_width off = Some w \<and> o_height off = Some hgt
                \<and> (12 < o_left off \<or> o_left off + w < 12 \<or> 92 < o_top off \<or> o_top off + hgt < 92)))
       \<or> ((prop_layout (inst_props ex_chart) = Centric \<or> prop_layout (inst_props ex_chart) = Radial)
          \<and> (\<exists>am rm. angleAxisMap (inst_state ex_chart) = Some am
                \<and> radiusAxisMap (inst_state ex_chart) = Some rm
                \<and> inRangeOfSector ex_tip_helpers (xy (Some 12) (Some 92))
                     (getAnyElementOfObject ex_tip_helpers am) = None))"
    by (simp add: ex_chart_def ex_props_def ex_state_def ex_offset_def)
  have polar:
    "((prop_layout (inst_props ex_polar_chart) = Horizontal
        \<or> prop_layout (inst_props ex_polar_chart) = Vertical)
          \<and> (\<exists>off w hgt. offset (inst_state ex_polar_chart) = Some off
                \<and> o_width off = Some w \<and> o_height off = Some hgt
                \<and> (12 < o_left off \<or> o_left off + w < 12 \<or> 92 < o_top off \<or> o_top off + hgt < 92)))
       \<or> ((prop_layout (inst_props ex_polar_chart) = Centric
            \<or> prop_layout (inst_props ex_polar_chart) = Radial)
          \<and> (\<exists>am rm. angleAxisMap (inst_state ex_polar_chart) = Some am
                \<and> radiusAxisMap (inst_state ex_polar_chart) = Some rm
                \<and> inRangeOfSector ex_tip_helpers (xy (Some 12) (Some 92))
                     (getAnyElementOfObject ex_tip_helpers am) = None))"
    by (simp add: ex_polar_chart_def ex_chart_def ex_props_def ex_state_def ex_tip_helpers_def
        xy_def Let_def)
  note C = pointer_outside_inactive [OF cont(1) sx sy cartesian]
  note P = pointer_outside_inactive [OF cont(2) sx sy polar]
  have st: "inst_state ex_chart = ex_state" "prop_syncId (inst_props ex_chart) = Some (Str ''linked'')"
    "eventEmitterSymbol ex_chart = 1"
    by (simp_all add: ex_chart_def ex_props_def)
  show ?thesis
    using C P unfolding st by simp
qed

text \<open>
  C4 as it is stated fails for a pointer within half a pixel of the plot rectangle. The
  container is at 8 and the plot rectangle starts at 65: a pointer at 72.5 of the page is at
  64.5 of the chart, outside the rectangle, and is rounded to 65, its edge. The mouse
  information is that of the first tick and the tooltip is active.
\<close>

theorem pointer_outside_inactive_counterexample:
  "inst_container ex_chart
     = Some \<lparr>ct_left = 8, ct_top = 8, ct_rectWidth = 500, ct_offsetWidth = 500\<rparr>
   \<and> pointerScale \<lparr>ct_left = 8, ct_top = 8, ct_rectWidth = 500, ct_offsetWidth = 500\<rparr> = Some 1
   \<and> offset (inst_state ex_chart) = Some ex_offset
   \<and> prop_layout (inst_props ex_chart) = Horizontal
   \<and> (145 / 2 - 8 :: real) < o_left ex_offset
   \<and> js_round (145 / 2 - 8) = o_left ex_offset
   \<and> map_sum id (map_option p_activeTooltipIndex)
       (getMouseInfo ex_tip_helpers ex_chart \<lparr>pageX = 145 / 2, pageY = 100\<rparr>)
       = Inr (Some (Some 0))
   \<and> map_sum id (isTooltipActive \<circ> fst)
       (triggeredAfterMouseMove ex_tip_helpers ex_chart \<lparr>pageX = 145 / 2, pageY = 100\<rparr>)
       = Inr True"
  by (simp add: ex_mouse_defs ex_sync_defs)

subsection \<open>Synchronised charts\<close>

text \<open>
  C7. A message that carries the emitter identity of the receiving instance is dropped when
  the sync method of the instance is not a function: the handler returns the state as it
  is, whatever the sync id and the content of the message. In particular the message that
  the instance emits after a mouse move, handled by the instance itself, changes nothing.
\<close>

theorem own_message_ignored:
  assumes "\<not> isFunction (prop_syncMethod (inst_props inst))"
  shows "handleReceiveSyncEvent h pipeline inst cId data (eventEmitterSymbol inst)
           = Inr (inst_state inst)
     \<and> (\<forall>st' sid ps em. triggeredAfterMouseMove h inst e = Inr (st', Some (sid, ps, em)) \<longrightarrow>
           handleReceiveSyncEvent h pipeline (inst\<lparr>inst_state := st'\<rparr>) (Some sid) ps em = Inr st')"
  using assms
  by (auto simp add: handleReceiveSyncEvent_def triggeredAfterMouseMove_def Let_def
      split: sum.splits)

theorem own_message_ignored_witness:
  "handleReceiveSyncEvent ex_tip_helpers ex_pipeline ex_chart (Some (Str ''linked'')) ex_message 1
     = Inr ex_state"
proof -
  have m: "\<not> isFunction (prop_syncMethod (inst_props ex_chart))"
    by (simp add: isFunction_def ex_chart_def ex_props_def)
  have s: "eventEmitterSymbol ex_chart = 1" "inst_state ex_chart = ex_state"
    by (simp_all add: ex_chart_def)
  show ?thesis
    using own_message_ignored [OF m, of ex_tip_helpers ex_pipeline "Some (Str ''linked'')"
        ex_message, THEN conjunct1]
    unfolding s .
qed







end
